theory Spec2Isabelle
  imports Main "HOL-Library.Sublist"
begin

section \<open>Errors\<close>

text \<open>
  A Go \<open>error\<close> value. The cluster API answers a failed call with a status error that
  carries a reason and an HTTP code; every other failure (transport, timeout, malformed
  response, a kubeconfig that cannot be read) is \<open>Failure\<close> with its message.
  \<open>Errorf\<close> is \<open>fmt.Errorf\<close> without \<open>%w\<close>, \<open>Wrapf\<close> is \<open>fmt.Errorf\<close> with
  \<open>%w\<close>: the message prefix and the wrapped cause. A nil error is the \<open>Inr\<close> side of a
  result.

  The reason of a status error: the three reasons the program distinguishes;
  \<open>KnownReason\<close> for every other reason of the table \<open>knownReasons\<close> of the Kubernetes
  client library; \<open>UnknownReason\<close> for a reason that is not in that table (the empty
  reason among them).
\<close>

datatype StatusReason = Forbidden | Unauthorized | NotFound | KnownReason string | UnknownReason string

datatype error =
    StatusError StatusReason int
  | Failure string
  | Errorf string
  | Wrapf string error

text \<open>
  \<open>reasonAndCodeForError\<close>, \<open>IsForbidden\<close> and \<open>IsUnauthorized\<close> of the Kubernetes
  client library (package \<open>apierrors\<close>). The reason and the code are those of the status
  error found in the chain of wrapped errors, and the unknown reason with code 0 when there
  is none. An error is forbidden when its reason is Forbidden, or when its reason is not a
  known one and its code is 403; unauthorized likewise with Unauthorized and 401.
\<close>

fun reasonAndCodeForError :: "error \<Rightarrow> StatusReason \<times> int" where
  "reasonAndCodeForError (StatusError reason code) = (reason, code)"
| "reasonAndCodeForError (Wrapf m e) = reasonAndCodeForError e"
| "reasonAndCodeForError e = (UnknownReason [], 0)"

fun knownReasons :: "StatusReason \<Rightarrow> bool" where
  "knownReasons (UnknownReason r) = False"
| "knownReasons reason = True"

definition IsForbidden :: "error \<Rightarrow> bool" where
  "IsForbidden err =
     (case reasonAndCodeForError err of
        (reason, code) \<Rightarrow>
          if reason = Forbidden then True
          else if \<not> knownReasons reason \<and> code = 403 then True
          else False)"

definition IsUnauthorized :: "error \<Rightarrow> bool" where
  "IsUnauthorized err =
     (case reasonAndCodeForError err of
        (reason, code) \<Rightarrow>
          if reason = Unauthorized then True
          else if \<not> knownReasons reason \<and> code = 401 then True
          else False)"

definition IsPermissionError :: "error \<Rightarrow> bool" where
  "IsPermissionError err = (IsForbidden err \<or> IsUnauthorized err)"

definition isPermissionError :: "error \<Rightarrow> bool" where
  "isPermissionError err = IsPermissionError err"

section \<open>Cluster objects\<close>

record OwnerReference =
  Kind :: string
  Name :: string

record PodStatus =
  PodIP :: string
  HostIP :: string

record Pod =
  Name :: string
  Namespace :: string
  OwnerReferences :: "OwnerReference list"
  Labels :: "string \<rightharpoonup> string"
  Annotations :: "string \<rightharpoonup> string"
  Status :: PodStatus

datatype IntOrString = IntVal int | StrVal string

record ServicePort =
  Port :: int
  TargetPort :: IntOrString
  Protocol :: string

record ServiceSpec =
  ClusterIP :: string
  ExternalIPs :: "string list"
  Type :: string
  Ports :: "ServicePort list"
  Selector :: "string \<rightharpoonup> string"

record LoadBalancerIngress =
  IP :: string

record LoadBalancerStatus =
  Ingress :: "LoadBalancerIngress list"

record ServiceStatus =
  LoadBalancer :: LoadBalancerStatus

record Service =
  Name :: string
  Namespace :: string
  Spec :: ServiceSpec
  Status :: ServiceStatus

record NamespaceItem =
  Name :: string

record ReplicaSet =
  Name :: string
  Namespace :: string
  OwnerReferences :: "OwnerReference list"

definition ServiceTypeLoadBalancer :: string where
  "ServiceTypeLoadBalancer = ''LoadBalancer''"

section \<open>The list/get capability and the kubeconfig\<close>

text \<open>
  \<open>kubernetes.Interface\<close>, as far as the program uses it. Each call is a function of
  its arguments: the search is a snapshot of an unchanged cluster. The \<open>int\<close> argument
  of a list call is \<open>ListOptions.Limit\<close> (\<open>0\<close> for the empty options).
\<close>

record Clientset =
  Pods_List :: "string \<Rightarrow> int \<Rightarrow> error + Pod list"
  Services_List :: "string \<Rightarrow> int \<Rightarrow> error + Service list"
  Namespaces_List :: "int \<Rightarrow> error + NamespaceItem list"
  ReplicaSets_Get :: "string \<Rightarrow> string \<Rightarrow> error + ReplicaSet"

text \<open>
  \<open>api.Config\<close>: the names of its \<open>Contexts\<close> map, in the order in which this run's
  iteration over the map yields them, and the current context.
\<close>

record Config =
  Contexts :: "string list"
  CurrentContext :: string

text \<open>
  What lies outside the repository: reading a kubeconfig file
  (\<open>clientcmd.LoadFromFile\<close>), building a clientset for a kubeconfig path and a context
  name (\<open>ClientConfig\<close>, whose rest configuration is named by its host here, followed
  by \<open>kubernetes.NewForConfig\<close>), and \<open>net.ParseIP\<close> (whether it returns an address).
\<close>

record World =
  LoadFromFile :: "string \<Rightarrow> error + Config"
  ClientConfig :: "string \<Rightarrow> string \<Rightarrow> error + string"
  NewForConfig :: "string \<Rightarrow> error + Clientset"
  ParseIP :: "string \<Rightarrow> bool"

record K8sClient =
  Clientset :: Clientset
  Config :: Config
  Namespaces :: "string list"

definition LoadKubeConfig :: "World \<Rightarrow> string \<Rightarrow> error + Config" where
  "LoadKubeConfig w kubeconfigPath =
     (case LoadFromFile w kubeconfigPath of
        Inl err \<Rightarrow> Inl (Wrapf ''failed to load kubeconfig'' err)
      | Inr config \<Rightarrow> Inr config)"

definition GetContexts :: "Config \<Rightarrow> string list" where
  "GetContexts config = Contexts config"

definition NewK8sClient :: "World \<Rightarrow> string \<Rightarrow> string \<Rightarrow> string list \<Rightarrow> error + K8sClient" where
  "NewK8sClient w kubeconfigPath contextName namespaces =
     (case LoadKubeConfig w kubeconfigPath of
        Inl err \<Rightarrow> Inl err
      | Inr config \<Rightarrow>
          (let contextName' = (if contextName = [] then CurrentContext config else contextName)
           in case ClientConfig w kubeconfigPath contextName' of
                Inl err \<Rightarrow> Inl (Wrapf ''failed to create rest config'' err)
              | Inr restConfig \<Rightarrow>
                  (case NewForConfig w restConfig of
                     Inl err \<Rightarrow> Inl (Wrapf ''failed to create clientset'' err)
                   | Inr clientset \<Rightarrow>
                       Inr \<lparr>Clientset = clientset, Config = config, Namespaces = namespaces\<rparr>)))"

section \<open>Search results\<close>

record PodInfo =
  Name :: string
  Namespace :: string
  PodIP :: string
  HostIP :: string
  OwnerKind :: string
  OwnerName :: string
  Labels :: "string \<rightharpoonup> string"
  Annotations :: "string \<rightharpoonup> string"

record ServiceInfo =
  Name :: string
  Namespace :: string
  ClusterIP :: string
  ExternalIPs :: "string list"
  Type :: string
  Ports :: "ServicePort list"
  Selector :: "string \<rightharpoonup> string"

definition getOwnerInfo :: "Pod \<Rightarrow> string \<times> string" where
  "getOwnerInfo pod =
     (case Pod.OwnerReferences pod of
        [] \<Rightarrow> ('''', '''')
      | owner # _ \<Rightarrow> (OwnerReference.Kind owner, OwnerReference.Name owner))"

text \<open>The \<open>PodInfo\<close> literal that both searches append for a matching pod.\<close>

definition newPodInfo :: "Pod \<Rightarrow> PodInfo" where
  "newPodInfo pod =
     (case getOwnerInfo pod of
        (ownerKind, ownerName) \<Rightarrow>
          \<lparr>PodInfo.Name = Pod.Name pod,
           PodInfo.Namespace = Pod.Namespace pod,
           PodInfo.PodIP = PodStatus.PodIP (Pod.Status pod),
           PodInfo.HostIP = PodStatus.HostIP (Pod.Status pod),
           OwnerKind = ownerKind,
           OwnerName = ownerName,
           PodInfo.Labels = Pod.Labels pod,
           PodInfo.Annotations = Pod.Annotations pod\<rparr>)"

definition newServiceInfo :: "Service \<Rightarrow> ServiceInfo" where
  "newServiceInfo svc =
     \<lparr>ServiceInfo.Name = Service.Name svc,
      ServiceInfo.Namespace = Service.Namespace svc,
      ServiceInfo.ClusterIP = ServiceSpec.ClusterIP (Spec svc),
      ServiceInfo.ExternalIPs = ServiceSpec.ExternalIPs (Spec svc),
      ServiceInfo.Type = ServiceSpec.Type (Spec svc),
      ServiceInfo.Ports = ServiceSpec.Ports (Spec svc),
      ServiceInfo.Selector = ServiceSpec.Selector (Spec svc)\<rparr>"

section \<open>Per-scope search\<close>

text \<open>The loop of \<open>SearchByIP\<close> over the listed pods, appending to \<open>pods\<close>.\<close>

fun SearchByIP_pods :: "string \<Rightarrow> Pod list \<Rightarrow> PodInfo list \<Rightarrow> PodInfo list" where
  "SearchByIP_pods ip [] pods = pods"
| "SearchByIP_pods ip (pod # items) pods =
     (if PodStatus.PodIP (Pod.Status pod) = ip \<or> PodStatus.HostIP (Pod.Status pod) = ip
      then SearchByIP_pods ip items (pods @ [newPodInfo pod])
      else SearchByIP_pods ip items pods)"

text \<open>The two inner loops that set \<open>matched\<close> and break at the first equal address.\<close>

fun matchExternalIPs :: "string \<Rightarrow> string list \<Rightarrow> bool \<Rightarrow> bool" where
  "matchExternalIPs ip [] matched = matched"
| "matchExternalIPs ip (externalIP # rest) matched =
     (if externalIP = ip then True else matchExternalIPs ip rest matched)"

fun matchIngress :: "string \<Rightarrow> LoadBalancerIngress list \<Rightarrow> bool \<Rightarrow> bool" where
  "matchIngress ip [] matched = matched"
| "matchIngress ip (ingress # rest) matched =
     (if IP ingress = ip then True else matchIngress ip rest matched)"

text \<open>The value of \<open>matched\<close> when the body of the service loop reaches \<open>if matched\<close>.\<close>

definition serviceMatched :: "string \<Rightarrow> Service \<Rightarrow> bool" where
  "serviceMatched ip svc =
     (let matched0 = False;
          matched1 = (if ServiceSpec.ClusterIP (Spec svc) = ip then True else matched0);
          matched2 = matchExternalIPs ip (ServiceSpec.ExternalIPs (Spec svc)) matched1;
          matched3 = (if ServiceSpec.Type (Spec svc) = ServiceTypeLoadBalancer
                      then matchIngress ip (Ingress (LoadBalancer (Service.Status svc))) matched2
                      else matched2)
      in matched3)"

fun SearchByIP_services :: "string \<Rightarrow> Service list \<Rightarrow> ServiceInfo list \<Rightarrow> ServiceInfo list" where
  "SearchByIP_services ip [] services = services"
| "SearchByIP_services ip (svc # items) services =
     (if serviceMatched ip svc
      then SearchByIP_services ip items (services @ [newServiceInfo svc])
      else SearchByIP_services ip items services)"

text \<open>
  The loop of \<open>SearchByIP\<close> over \<open>c.Namespaces\<close>. A return of
  \<open>nil, nil, err\<close> is \<open>Inl err\<close>; \<open>continue\<close> is the recursive call on the
  remaining namespaces with the slices as they are.
\<close>

fun SearchByIP_namespaces ::
  "Clientset \<Rightarrow> string \<Rightarrow> string list \<Rightarrow> PodInfo list \<Rightarrow> ServiceInfo list
     \<Rightarrow> error + (PodInfo list \<times> ServiceInfo list)" where
  "SearchByIP_namespaces cs ip [] pods services = Inr (pods, services)"
| "SearchByIP_namespaces cs ip (namespace # rest) pods services =
     (case Pods_List cs namespace 0 of
        Inl err \<Rightarrow>
          if isPermissionError err then SearchByIP_namespaces cs ip rest pods services
          else Inl (Wrapf (''failed to list pods in namespace '' @ namespace) err)
      | Inr podList \<Rightarrow>
          (case Services_List cs namespace 0 of
             Inl err \<Rightarrow>
               if isPermissionError err
               then SearchByIP_namespaces cs ip rest (SearchByIP_pods ip podList pods) services
               else Inl (Wrapf (''failed to list services in namespace '' @ namespace) err)
           | Inr svcList \<Rightarrow>
               SearchByIP_namespaces cs ip rest
                 (SearchByIP_pods ip podList pods) (SearchByIP_services ip svcList services)))"

definition SearchByIP :: "K8sClient \<Rightarrow> string \<Rightarrow> error + (PodInfo list \<times> ServiceInfo list)" where
  "SearchByIP c ip = SearchByIP_namespaces (Clientset c) ip (Namespaces c) [] []"

text \<open>
  \<open>strings.Contains\<close> of the Go standard library: whether \<open>substr\<close> occurs in
  \<open>s\<close>, byte for byte, starting at some position of \<open>s\<close>.
\<close>

fun strings_Contains :: "string \<Rightarrow> string \<Rightarrow> bool" where
  "strings_Contains [] substr = (substr = [])"
| "strings_Contains (c # s) substr = (prefix substr (c # s) \<or> strings_Contains s substr)"

fun SearchByName_pods :: "string \<Rightarrow> Pod list \<Rightarrow> PodInfo list \<Rightarrow> PodInfo list" where
  "SearchByName_pods name [] pods = pods"
| "SearchByName_pods name (pod # items) pods =
     (if strings_Contains (Pod.Name pod) name
      then SearchByName_pods name items (pods @ [newPodInfo pod])
      else SearchByName_pods name items pods)"

fun SearchByName_namespaces ::
  "Clientset \<Rightarrow> string \<Rightarrow> string list \<Rightarrow> PodInfo list \<Rightarrow> error + PodInfo list" where
  "SearchByName_namespaces cs name [] pods = Inr pods"
| "SearchByName_namespaces cs name (namespace # rest) pods =
     (case Pods_List cs namespace 0 of
        Inl err \<Rightarrow>
          if isPermissionError err then SearchByName_namespaces cs name rest pods
          else Inl (Wrapf (''failed to list pods in namespace '' @ namespace) err)
      | Inr podList \<Rightarrow>
          SearchByName_namespaces cs name rest (SearchByName_pods name podList pods))"

definition SearchByName :: "K8sClient \<Rightarrow> string \<Rightarrow> error + PodInfo list" where
  "SearchByName c name = SearchByName_namespaces (Clientset c) name (Namespaces c) []"

section \<open>Owner resolution\<close>

text \<open>The loop of \<open>GetDeploymentByReplicaSet\<close> over the owner references.\<close>

fun GetDeploymentByReplicaSet_owners :: "OwnerReference list \<Rightarrow> error + string" where
  "GetDeploymentByReplicaSet_owners [] = Inl (Errorf ''no deployment found for replicaset'')"
| "GetDeploymentByReplicaSet_owners (owner # rest) =
     (if OwnerReference.Kind owner = ''Deployment'' then Inr (OwnerReference.Name owner)
      else GetDeploymentByReplicaSet_owners rest)"

definition GetDeploymentByReplicaSet :: "K8sClient \<Rightarrow> string \<Rightarrow> string \<Rightarrow> error + string" where
  "GetDeploymentByReplicaSet c namespace replicaSetName =
     (case ReplicaSets_Get (Clientset c) namespace replicaSetName of
        Inl err \<Rightarrow> Inl (Wrapf ''failed to get replicaset'' err)
      | Inr rs \<Rightarrow>
          if length (ReplicaSet.OwnerReferences rs) = 0
          then Inl (Errorf ''replicaset has no owner'')
          else GetDeploymentByReplicaSet_owners (ReplicaSet.OwnerReferences rs))"

section \<open>Aggregation across contexts\<close>

record SearchResultWithContext =
  Context :: string
  Namespace :: string
  Pods :: "PodInfo list"
  Services :: "ServiceInfo list"

record PodResultWithContext =
  Context :: string
  Namespace :: string
  Pods :: "PodInfo list"

text \<open>The loop that appends the name of every listed namespace.\<close>

fun appendNamespaceNames :: "NamespaceItem list \<Rightarrow> string list \<Rightarrow> string list" where
  "appendNamespaceNames [] namespacesToSearch = namespacesToSearch"
| "appendNamespaceNames (ns # items) namespacesToSearch =
     appendNamespaceNames items (namespacesToSearch @ [NamespaceItem.Name ns])"

text \<open>
  The block "Determine which namespaces to search" of both aggregate searches:
  \<open>Some\<close> of the value of \<open>namespacesToSearch\<close> for this context, \<open>None\<close> where
  the namespace listing fails and the loop over the contexts continues.
\<close>

definition namespacesToSearch :: "K8sClient \<Rightarrow> string list \<Rightarrow> string list option" where
  "namespacesToSearch client namespaces =
     (if length namespaces > 0 then Some namespaces
      else case Namespaces_List (Clientset client) 0 of
             Inl err \<Rightarrow> None
           | Inr namespaceList \<Rightarrow> Some (appendNamespaceNames namespaceList []))"

text \<open>
  The loop over the namespaces of one context. The assignment to
  \<open>client.Namespaces\<close> stays in the client that the next iteration sees.
\<close>

fun SearchByIPAllContexts_namespaces ::
  "K8sClient \<Rightarrow> string \<Rightarrow> string \<Rightarrow> string list \<Rightarrow> SearchResultWithContext list
     \<Rightarrow> SearchResultWithContext list" where
  "SearchByIPAllContexts_namespaces client contextName ip [] results = results"
| "SearchByIPAllContexts_namespaces client contextName ip (nsName # rest) results =
     (case SearchByIP (client\<lparr>Namespaces := [nsName]\<rparr>) ip of
        Inl err \<Rightarrow>
          SearchByIPAllContexts_namespaces (client\<lparr>Namespaces := [nsName]\<rparr>) contextName ip rest results
      | Inr (pods, services) \<Rightarrow>
          if length pods > 0 \<or> length services > 0
          then SearchByIPAllContexts_namespaces (client\<lparr>Namespaces := [nsName]\<rparr>) contextName ip rest
                 (results @ [\<lparr>SearchResultWithContext.Context = contextName,
                              SearchResultWithContext.Namespace = nsName,
                              SearchResultWithContext.Pods = pods,
                              Services = services\<rparr>])
          else SearchByIPAllContexts_namespaces (client\<lparr>Namespaces := [nsName]\<rparr>) contextName ip rest results)"

fun SearchByIPAllContexts_contexts ::
  "World \<Rightarrow> string \<Rightarrow> string \<Rightarrow> string list \<Rightarrow> string list \<Rightarrow> SearchResultWithContext list
     \<Rightarrow> SearchResultWithContext list" where
  "SearchByIPAllContexts_contexts w kubeconfigPath ip namespaces [] results = results"
| "SearchByIPAllContexts_contexts w kubeconfigPath ip namespaces (contextName # rest) results =
     (case NewK8sClient w kubeconfigPath contextName [] of
        Inl err \<Rightarrow> SearchByIPAllContexts_contexts w kubeconfigPath ip namespaces rest results
      | Inr client \<Rightarrow>
          (case namespacesToSearch client namespaces of
             None \<Rightarrow> SearchByIPAllContexts_contexts w kubeconfigPath ip namespaces rest results
           | Some nss \<Rightarrow>
               SearchByIPAllContexts_contexts w kubeconfigPath ip namespaces rest
                 (SearchByIPAllContexts_namespaces client contextName ip nss results)))"

definition SearchByIPAllContexts ::
  "World \<Rightarrow> string \<Rightarrow> string \<Rightarrow> string list \<Rightarrow> error + SearchResultWithContext list" where
  "SearchByIPAllContexts w kubeconfigPath ip namespaces =
     (case LoadKubeConfig w kubeconfigPath of
        Inl err \<Rightarrow> Inl err
      | Inr config \<Rightarrow>
          Inr (SearchByIPAllContexts_contexts w kubeconfigPath ip namespaces (GetContexts config) []))"

fun SearchByNameAllContexts_namespaces ::
  "K8sClient \<Rightarrow> string \<Rightarrow> string \<Rightarrow> string list \<Rightarrow> PodResultWithContext list
     \<Rightarrow> PodResultWithContext list" where
  "SearchByNameAllContexts_namespaces client contextName name [] results = results"
| "SearchByNameAllContexts_namespaces client contextName name (nsName # rest) results =
     (case SearchByName (client\<lparr>Namespaces := [nsName]\<rparr>) name of
        Inl err \<Rightarrow>
          SearchByNameAllContexts_namespaces (client\<lparr>Namespaces := [nsName]\<rparr>) contextName name rest results
      | Inr pods \<Rightarrow>
          if length pods > 0
          then SearchByNameAllContexts_namespaces (client\<lparr>Namespaces := [nsName]\<rparr>) contextName name rest
                 (results @ [\<lparr>PodResultWithContext.Context = contextName,
                              PodResultWithContext.Namespace = nsName,
                              PodResultWithContext.Pods = pods\<rparr>])
          else SearchByNameAllContexts_namespaces (client\<lparr>Namespaces := [nsName]\<rparr>) contextName name rest results)"

fun SearchByNameAllContexts_contexts ::
  "World \<Rightarrow> string \<Rightarrow> string \<Rightarrow> string list \<Rightarrow> string list \<Rightarrow> PodResultWithContext list
     \<Rightarrow> PodResultWithContext list" where
  "SearchByNameAllContexts_contexts w kubeconfigPath name namespaces [] results = results"
| "SearchByNameAllContexts_contexts w kubeconfigPath name namespaces (contextName # rest) results =
     (case NewK8sClient w kubeconfigPath contextName [] of
        Inl err \<Rightarrow> SearchByNameAllContexts_contexts w kubeconfigPath name namespaces rest results
      | Inr client \<Rightarrow>
          (case namespacesToSearch client namespaces of
             None \<Rightarrow> SearchByNameAllContexts_contexts w kubeconfigPath name namespaces rest results
           | Some nss \<Rightarrow>
               SearchByNameAllContexts_contexts w kubeconfigPath name namespaces rest
                 (SearchByNameAllContexts_namespaces client contextName name nss results)))"

definition SearchByNameAllContexts ::
  "World \<Rightarrow> string \<Rightarrow> string \<Rightarrow> string list \<Rightarrow> error + PodResultWithContext list" where
  "SearchByNameAllContexts w kubeconfigPath name namespaces =
     (case LoadKubeConfig w kubeconfigPath of
        Inl err \<Rightarrow> Inl err
      | Inr config \<Rightarrow>
          Inr (SearchByNameAllContexts_contexts w kubeconfigPath name namespaces (GetContexts config) []))"

section \<open>The command-line callers\<close>

definition ValidateIP :: "World \<Rightarrow> string \<Rightarrow> bool" where
  "ValidateIP w ip = ParseIP w ip"

text \<open>The probing loop of \<open>GetAccessibleNamespaces\<close>: one pod list call with limit 1.\<close>

fun GetAccessibleNamespaces_probe :: "Clientset \<Rightarrow> NamespaceItem list \<Rightarrow> string list \<Rightarrow> string list" where
  "GetAccessibleNamespaces_probe cs [] accessible = accessible"
| "GetAccessibleNamespaces_probe cs (ns # items) accessible =
     (case Pods_List cs (NamespaceItem.Name ns) 1 of
        Inl err \<Rightarrow> GetAccessibleNamespaces_probe cs items accessible
      | Inr podList \<Rightarrow> GetAccessibleNamespaces_probe cs items (accessible @ [NamespaceItem.Name ns]))"

definition GetAccessibleNamespaces :: "World \<Rightarrow> string \<Rightarrow> string \<Rightarrow> error + string list" where
  "GetAccessibleNamespaces w kubeconfigPath contextName =
     (case NewK8sClient w kubeconfigPath contextName [] of
        Inl err \<Rightarrow> Inl err
      | Inr client \<Rightarrow>
          (case Namespaces_List (Clientset client) 0 of
             Inl err \<Rightarrow> Inl err
           | Inr namespaceList \<Rightarrow>
               Inr (GetAccessibleNamespaces_probe (Clientset client) namespaceList [])))"

text \<open>
  The block "If no namespaces specified, try to get accessible namespaces automatically"
  of \<open>SearchK8sByIPAllContexts\<close> and \<open>SearchK8sByNameAllContexts\<close>: the value of
  \<open>namespaces\<close> after it.
\<close>

definition discoverNamespaces :: "World \<Rightarrow> string \<Rightarrow> string list \<Rightarrow> string list" where
  "discoverNamespaces w kubeconfigPath namespaces =
     (if length namespaces = 0
      then (case GetAccessibleNamespaces w kubeconfigPath [] of
              Inl err \<Rightarrow> namespaces
            | Inr accessible \<Rightarrow> if length accessible > 0 then accessible else namespaces)
      else namespaces)"

text \<open>
  The callers return an error or nil (\<open>None\<close>); what they print is left out. The
  \<open>results\<close> functions give the value of \<open>results\<close> that the caller renders, or the
  error it returns.
\<close>

definition SearchK8sByIPAllContexts_results ::
  "World \<Rightarrow> string \<Rightarrow> string \<Rightarrow> string list \<Rightarrow> error + SearchResultWithContext list" where
  "SearchK8sByIPAllContexts_results w kubeconfigPath ip namespaces =
     (if \<not> ValidateIP w ip then Inl (Errorf (''invalid IP address: '' @ ip))
      else SearchByIPAllContexts w kubeconfigPath ip (discoverNamespaces w kubeconfigPath namespaces))"

definition SearchK8sByIPAllContexts :: "World \<Rightarrow> string \<Rightarrow> string \<Rightarrow> string list \<Rightarrow> error option" where
  "SearchK8sByIPAllContexts w kubeconfigPath ip namespaces =
     (case SearchK8sByIPAllContexts_results w kubeconfigPath ip namespaces of
        Inl err \<Rightarrow> Some err
      | Inr results \<Rightarrow> None)"

definition SearchK8sByNameAllContexts_results ::
  "World \<Rightarrow> string \<Rightarrow> string \<Rightarrow> string list \<Rightarrow> error + PodResultWithContext list" where
  "SearchK8sByNameAllContexts_results w kubeconfigPath name namespaces =
     (if name = [] then Inl (Errorf ''name cannot be empty'')
      else SearchByNameAllContexts w kubeconfigPath name (discoverNamespaces w kubeconfigPath namespaces))"

definition SearchK8sByNameAllContexts :: "World \<Rightarrow> string \<Rightarrow> string \<Rightarrow> string list \<Rightarrow> error option" where
  "SearchK8sByNameAllContexts w kubeconfigPath name namespaces =
     (case SearchK8sByNameAllContexts_results w kubeconfigPath name namespaces of
        Inl err \<Rightarrow> Some err
      | Inr results \<Rightarrow> None)"

record K8sSearchConfig =
  KubeconfigPath :: string
  Namespaces :: "string list"
  ContextName :: string

definition SearchK8sByName :: "World \<Rightarrow> K8sSearchConfig \<Rightarrow> string \<Rightarrow> error option" where
  "SearchK8sByName w config name =
     (if name = [] then Some (Errorf ''name cannot be empty'')
      else case NewK8sClient w (KubeconfigPath config) (ContextName config)
                  (K8sSearchConfig.Namespaces config) of
             Inl err \<Rightarrow> Some err
           | Inr client \<Rightarrow>
               (case SearchByName client name of
                  Inl err \<Rightarrow> Some err
                | Inr pods \<Rightarrow> None))"

section \<open>Scopes\<close>

text \<open>
  The scopes of an aggregate search: the (context, namespace) pairs on which the loops of
  \<open>SearchByIPAllContexts\<close> and \<open>SearchByNameAllContexts\<close> run the per-scope
  search, in the order of the loops.
\<close>

definition searchedNamespaces :: "World \<Rightarrow> string \<Rightarrow> string list \<Rightarrow> string \<Rightarrow> string list" where
  "searchedNamespaces w kubeconfigPath namespaces contextName =
     (case NewK8sClient w kubeconfigPath contextName [] of
        Inl err \<Rightarrow> []
      | Inr client \<Rightarrow>
          (case namespacesToSearch client namespaces of
             None \<Rightarrow> []
           | Some nss \<Rightarrow> nss))"

definition searchableScopes :: "World \<Rightarrow> string \<Rightarrow> string list \<Rightarrow> (string \<times> string) list" where
  "searchableScopes w kubeconfigPath namespaces =
     (case LoadKubeConfig w kubeconfigPath of
        Inl err \<Rightarrow> []
      | Inr config \<Rightarrow>
          concat (map (\<lambda>contextName.
                    map (Pair contextName) (searchedNamespaces w kubeconfigPath namespaces contextName))
                  (GetContexts config)))"

text \<open>
  The aggregate result as the specification words it: the merged, order-preserving list of
  the included results. A scope is included with the pods and services that its search
  returns when there is at least one of them; it is dropped when there is none or when its
  search fails. A context contributes the included scopes of its namespaces, in order: the
  given namespaces when there are some, the namespaces that its API lists otherwise. It
  contributes nothing when its client cannot be built or its namespaces cannot be listed.
\<close>

definition scopedResultIP ::
  "K8sClient \<Rightarrow> string \<Rightarrow> string \<Rightarrow> string \<Rightarrow> SearchResultWithContext list" where
  "scopedResultIP client contextName ip nsName =
     (case SearchByIP (client\<lparr>K8sClient.Namespaces := [nsName]\<rparr>) ip of
        Inl err \<Rightarrow> []
      | Inr (pods, services) \<Rightarrow>
          if pods = [] \<and> services = [] then []
          else [\<lparr>SearchResultWithContext.Context = contextName,
                 SearchResultWithContext.Namespace = nsName,
                 SearchResultWithContext.Pods = pods, Services = services\<rparr>])"

definition scopedResultName ::
  "K8sClient \<Rightarrow> string \<Rightarrow> string \<Rightarrow> string \<Rightarrow> PodResultWithContext list" where
  "scopedResultName client contextName name nsName =
     (case SearchByName (client\<lparr>K8sClient.Namespaces := [nsName]\<rparr>) name of
        Inl err \<Rightarrow> []
      | Inr pods \<Rightarrow>
          if pods = [] then []
          else [\<lparr>PodResultWithContext.Context = contextName,
                 PodResultWithContext.Namespace = nsName,
                 PodResultWithContext.Pods = pods\<rparr>])"

definition contextResultsIP ::
  "World \<Rightarrow> string \<Rightarrow> string \<Rightarrow> string list \<Rightarrow> string \<Rightarrow> SearchResultWithContext list" where
  "contextResultsIP w kubeconfigPath ip namespaces contextName =
     (case NewK8sClient w kubeconfigPath contextName [] of
        Inl err \<Rightarrow> []
      | Inr client \<Rightarrow>
          if namespaces \<noteq> []
          then concat (map (scopedResultIP client contextName ip) namespaces)
          else (case Namespaces_List (Clientset client) 0 of
                  Inl err \<Rightarrow> []
                | Inr namespaceList \<Rightarrow>
                    concat (map (scopedResultIP client contextName ip)
                              (map NamespaceItem.Name namespaceList))))"

definition contextResultsName ::
  "World \<Rightarrow> string \<Rightarrow> string \<Rightarrow> string list \<Rightarrow> string \<Rightarrow> PodResultWithContext list" where
  "contextResultsName w kubeconfigPath name namespaces contextName =
     (case NewK8sClient w kubeconfigPath contextName [] of
        Inl err \<Rightarrow> []
      | Inr client \<Rightarrow>
          if namespaces \<noteq> []
          then concat (map (scopedResultName client contextName name) namespaces)
          else (case Namespaces_List (Clientset client) 0 of
                  Inl err \<Rightarrow> []
                | Inr namespaceList \<Rightarrow>
                    concat (map (scopedResultName client contextName name)
                              (map NamespaceItem.Name namespaceList))))"

text \<open>
  The accessible namespaces of a context as the specification words them: the
  namespaces known to the context's API for which the bounded "list one pod" probe
  succeeds.
\<close>

definition AccessibleNamespaceSet :: "Clientset \<Rightarrow> string set" where
  "AccessibleNamespaceSet cs =
     (case Namespaces_List cs 0 of
        Inl err \<Rightarrow> {}
      | Inr namespaceList \<Rightarrow>
          set (filter (\<lambda>ns. \<not> isl (Pods_List cs ns 1))
                 (map NamespaceItem.Name namespaceList)))"

section \<open>Fixtures\<close>

text \<open>The objects of the repository's tests, and three clusters built from them.\<close>

definition pod1 :: Pod where
  "pod1 = \<lparr>Pod.Name = ''test-pod-1'', Pod.Namespace = ''default'',
           Pod.OwnerReferences = [\<lparr>Kind = ''ReplicaSet'', OwnerReference.Name = ''test-rs-1''\<rparr>],
           Pod.Labels = Map.empty, Pod.Annotations = Map.empty,
           Pod.Status = \<lparr>PodStatus.PodIP = ''10.0.0.1'', PodStatus.HostIP = ''192.168.1.1''\<rparr>\<rparr>"

definition pod2 :: Pod where
  "pod2 = \<lparr>Pod.Name = ''test-pod-2'', Pod.Namespace = ''test-ns'',
           Pod.OwnerReferences = [],
           Pod.Labels = Map.empty, Pod.Annotations = Map.empty,
           Pod.Status = \<lparr>PodStatus.PodIP = ''10.0.0.2'', PodStatus.HostIP = ''192.168.1.2''\<rparr>\<rparr>"

definition redisPod :: Pod where
  "redisPod = \<lparr>Pod.Name = ''redis-pod'', Pod.Namespace = ''default'',
           Pod.OwnerReferences = [],
           Pod.Labels = Map.empty, Pod.Annotations = Map.empty,
           Pod.Status = \<lparr>PodStatus.PodIP = ''10.0.0.3'', PodStatus.HostIP = ''192.168.1.3''\<rparr>\<rparr>"

definition testSvc :: Service where
  "testSvc = \<lparr>Service.Name = ''test-service'', Service.Namespace = ''default'',
          Spec = \<lparr>ServiceSpec.ClusterIP = ''10.96.0.1'', ServiceSpec.ExternalIPs = [],
                  ServiceSpec.Type = ''ClusterIP'', ServiceSpec.Ports = [],
                  ServiceSpec.Selector = [''app'' \<mapsto> ''test'']\<rparr>,
          Service.Status = \<lparr>LoadBalancer = \<lparr>Ingress = []\<rparr>\<rparr>\<rparr>"

definition lbSvc :: Service where
  "lbSvc = \<lparr>Service.Name = ''lb-service'', Service.Namespace = ''default'',
          Spec = \<lparr>ServiceSpec.ClusterIP = ''10.96.0.10'', ServiceSpec.ExternalIPs = [''203.0.113.1''],
                  ServiceSpec.Type = ''LoadBalancer'', ServiceSpec.Ports = [],
                  ServiceSpec.Selector = Map.empty\<rparr>,
          Service.Status = \<lparr>LoadBalancer = \<lparr>Ingress = [\<lparr>IP = ''203.0.113.2''\<rparr>]\<rparr>\<rparr>\<rparr>"

text \<open>A service that is not of type LoadBalancer although its status lists an ingress address.\<close>

definition staleSvc :: Service where
  "staleSvc = \<lparr>Service.Name = ''stale-service'', Service.Namespace = ''default'',
          Spec = \<lparr>ServiceSpec.ClusterIP = ''10.96.0.11'', ServiceSpec.ExternalIPs = [],
                  ServiceSpec.Type = ''ClusterIP'', ServiceSpec.Ports = [],
                  ServiceSpec.Selector = Map.empty\<rparr>,
          Service.Status = \<lparr>LoadBalancer = \<lparr>Ingress = [\<lparr>IP = ''203.0.113.2''\<rparr>]\<rparr>\<rparr>\<rparr>"

definition replicaSetOwnedBy :: "string \<Rightarrow> OwnerReference list \<Rightarrow> ReplicaSet" where
  "replicaSetOwnedBy name owners =
     \<lparr>ReplicaSet.Name = name, ReplicaSet.Namespace = ''default'', ReplicaSet.OwnerReferences = owners\<rparr>"

text \<open>A cluster in which every call is allowed.\<close>

definition fakeClient :: Clientset where
  "fakeClient =
     \<lparr>Pods_List = (\<lambda>namespace limit.
         if namespace = ''default'' then Inr [pod1, redisPod]
         else if namespace = ''test-ns'' then Inr [pod2]
         else Inr []),
      Services_List = (\<lambda>namespace limit.
         if namespace = ''default'' then Inr [testSvc, lbSvc, staleSvc] else Inr []),
      Namespaces_List = (\<lambda>limit. Inr [\<lparr>NamespaceItem.Name = ''default''\<rparr>,
                                        \<lparr>NamespaceItem.Name = ''test-ns''\<rparr>]),
      ReplicaSets_Get = (\<lambda>namespace name.
         if namespace = ''default'' \<and> name = ''test-rs-1''
         then Inr (replicaSetOwnedBy name
                [\<lparr>Kind = ''Job'', OwnerReference.Name = ''job-A''\<rparr>,
                 \<lparr>Kind = ''Deployment'', OwnerReference.Name = ''dep-A''\<rparr>,
                 \<lparr>Kind = ''Deployment'', OwnerReference.Name = ''dep-B''\<rparr>])
         else if namespace = ''default'' \<and> name = ''orphan-rs''
         then Inr (replicaSetOwnedBy name [])
         else if namespace = ''default'' \<and> name = ''job-rs''
         then Inr (replicaSetOwnedBy name [\<lparr>Kind = ''Job'', OwnerReference.Name = ''job-A''\<rparr>])
         else Inl (StatusError NotFound 404))\<rparr>"

text \<open>
  A cluster with uneven permissions: pods may not be listed in \<open>kube-system\<close> nor in
  \<open>quota\<close> (code 403 with a reason of the cluster's own), services may not be listed in
  \<open>svc-denied\<close>, the pod list of \<open>broken\<close> times out and the service list of
  \<open>svc-broken\<close> fails in the server. The namespace \<open>shared\<close> is not listed by the API.
\<close>

definition restrictedClient :: Clientset where
  "restrictedClient =
     \<lparr>Pods_List = (\<lambda>namespace limit.
         if namespace = ''default'' then Inr [pod1]
         else if namespace = ''kube-system'' then Inl (StatusError Forbidden 403)
         else if namespace = ''svc-denied'' then Inr [pod1]
         else if namespace = ''broken'' then Inl (Failure ''context deadline exceeded'')
         else if namespace = ''quota'' then Inl (StatusError (UnknownReason ''QuotaExceeded'') 403)
         else if namespace = ''shared'' then Inr [pod1]
         else Inr []),
      Services_List = (\<lambda>namespace limit.
         if namespace = ''kube-system'' then Inr [testSvc]
         else if namespace = ''svc-denied'' then Inl (StatusError Unauthorized 401)
         else if namespace = ''svc-broken'' then Inl (StatusError (KnownReason ''InternalError'') 500)
         else if namespace = ''quota'' then Inr [testSvc]
         else if namespace = ''shared'' then Inr [testSvc]
         else Inr []),
      Namespaces_List = (\<lambda>limit. Inr [\<lparr>NamespaceItem.Name = ''default''\<rparr>,
                                        \<lparr>NamespaceItem.Name = ''kube-system''\<rparr>,
                                        \<lparr>NamespaceItem.Name = ''svc-denied''\<rparr>]),
      ReplicaSets_Get = (\<lambda>namespace name. Inl (StatusError Forbidden 403))\<rparr>"

text \<open>A cluster whose namespaces can be listed and where no pod list is allowed.\<close>

definition lockedClient :: Clientset where
  "lockedClient =
     \<lparr>Pods_List = (\<lambda>namespace limit. Inl (StatusError Forbidden 403)),
      Services_List = (\<lambda>namespace limit. Inl (StatusError Forbidden 403)),
      Namespaces_List = (\<lambda>limit. Inr [\<lparr>NamespaceItem.Name = ''kube-system''\<rparr>]),
      ReplicaSets_Get = (\<lambda>namespace name. Inl (StatusError Forbidden 403))\<rparr>"

text \<open>A cluster whose namespaces cannot be listed, although the pods of a namespace can.\<close>

definition noListClient :: Clientset where
  "noListClient =
     \<lparr>Pods_List = (\<lambda>namespace limit. if namespace = ''default'' then Inr [pod1] else Inr []),
      Services_List = (\<lambda>namespace limit. Inr []),
      Namespaces_List = (\<lambda>limit. Inl (StatusError Forbidden 403)),
      ReplicaSets_Get = (\<lambda>namespace name. Inl (StatusError Forbidden 403))\<rparr>"

definition clientFor :: "Clientset \<Rightarrow> string list \<Rightarrow> K8sClient" where
  "clientFor cs namespaces =
     \<lparr>Clientset = cs, Config = \<lparr>Contexts = [], CurrentContext = []\<rparr>,
      K8sClient.Namespaces = namespaces\<rparr>"

text \<open>
  Six kubeconfig files. \<open>/kube/config\<close> has three contexts, of which
  \<open>context-2\<close> cannot be reached; \<open>/kube/empty\<close> has no context; \<open>/kube/locked\<close>
  has the locked cluster alone; \<open>/kube/nolist\<close> has the cluster whose namespaces cannot
  be listed, as the current context, and the open cluster; \<open>/kube/unreachable\<close> has
  \<open>context-2\<close> alone; \<open>/kube/restricted\<close> has the restricted cluster, as the current
  context, and the open cluster. No other path can be read. The address parser answers for the
  addresses of the tests.
\<close>

definition testWorld :: World where
  "testWorld =
     \<lparr>LoadFromFile = (\<lambda>kubeconfigPath.
         if kubeconfigPath = ''/kube/config''
         then Inr \<lparr>Contexts = [''context-1'', ''context-2'', ''context-3''],
                   CurrentContext = ''context-1''\<rparr>
         else if kubeconfigPath = ''/kube/empty''
         then Inr \<lparr>Contexts = [], CurrentContext = []\<rparr>
         else if kubeconfigPath = ''/kube/locked''
         then Inr \<lparr>Contexts = [''context-l''], CurrentContext = ''context-l''\<rparr>
         else if kubeconfigPath = ''/kube/nolist''
         then Inr \<lparr>Contexts = [''context-n'', ''context-1''], CurrentContext = ''context-n''\<rparr>
         else if kubeconfigPath = ''/kube/unreachable''
         then Inr \<lparr>Contexts = [''context-2''], CurrentContext = ''context-2''\<rparr>
         else if kubeconfigPath = ''/kube/restricted''
         then Inr \<lparr>Contexts = [''context-3'', ''context-1''], CurrentContext = ''context-3''\<rparr>
         else Inl (Failure ''no such file or directory'')),
      ClientConfig = (\<lambda>kubeconfigPath contextName.
         if contextName = ''context-1'' then Inr ''test-cluster-1''
         else if contextName = ''context-3'' then Inr ''test-cluster-3''
         else if contextName = ''context-l'' then Inr ''test-cluster-l''
         else if contextName = ''context-n'' then Inr ''test-cluster-n''
         else Inl (Failure ''invalid configuration'')),
      NewForConfig = (\<lambda>restConfig.
         if restConfig = ''test-cluster-1'' then Inr fakeClient
         else if restConfig = ''test-cluster-3'' then Inr restrictedClient
         else if restConfig = ''test-cluster-l'' then Inr lockedClient
         else if restConfig = ''test-cluster-n'' then Inr noListClient
         else Inl (Failure ''no such host'')),
      ParseIP = (\<lambda>ip. ip \<in> set [''10.0.0.1'', ''10.96.0.1'', ''192.168.1.1'', ''127.0.0.1'',
                                  ''2001:db8::1'', ''::1''])\<rparr>"

section \<open>The loops as list operations\<close>

lemma SearchByIP_pods_eq:
  "SearchByIP_pods ip items pods =
     pods @ map newPodInfo
       (filter (\<lambda>pod. PodStatus.PodIP (Pod.Status pod) = ip \<or> PodStatus.HostIP (Pod.Status pod) = ip) items)"
  by (induction items arbitrary: pods) simp_all

lemma matchExternalIPs_iff: "matchExternalIPs ip xs matched \<longleftrightarrow> matched \<or> ip \<in> set xs"
  by (induction xs) auto

lemma matchIngress_iff: "matchIngress ip xs matched \<longleftrightarrow> matched \<or> ip \<in> IP ` set xs"
  by (induction xs) auto

lemma serviceMatched_iff:
  "serviceMatched ip svc \<longleftrightarrow>
     ServiceSpec.ClusterIP (Spec svc) = ip
     \<or> ip \<in> set (ServiceSpec.ExternalIPs (Spec svc))
     \<or> (ServiceSpec.Type (Spec svc) = ''LoadBalancer''
        \<and> ip \<in> IP ` set (Ingress (LoadBalancer (Service.Status svc))))"
  by (auto simp: serviceMatched_def Let_def matchExternalIPs_iff matchIngress_iff
        ServiceTypeLoadBalancer_def)

lemma SearchByIP_services_eq:
  "SearchByIP_services ip items services =
     services @ map newServiceInfo (filter (serviceMatched ip) items)"
  by (induction items arbitrary: services) simp_all

lemma strings_Contains_iff:
  "strings_Contains s substr \<longleftrightarrow> (\<exists>before after. s = before @ substr @ after)"
proof (induction s)
  case Nil
  then show ?case by auto
next
  case (Cons c s)
  show ?case
  proof
    assume "strings_Contains (c # s) substr"
    then consider "prefix substr (c # s)" | "strings_Contains s substr" by auto
    then show "\<exists>before after. c # s = before @ substr @ after"
    proof cases
      case 1
      then obtain after where "c # s = substr @ after" by (auto simp: prefix_def)
      then have "c # s = [] @ substr @ after" by simp
      then show ?thesis by blast
    next
      case 2
      with Cons.IH obtain before after where "s = before @ substr @ after" by blast
      then have "c # s = (c # before) @ substr @ after" by simp
      then show ?thesis by blast
    qed
  next
    assume "\<exists>before after. c # s = before @ substr @ after"
    then obtain before after where eq: "c # s = before @ substr @ after" by blast
    show "strings_Contains (c # s) substr"
    proof (cases before)
      case Nil
      with eq have "prefix substr (c # s)" by (simp add: prefix_def)
      then show ?thesis by simp
    next
      case (Cons b before')
      with eq have "s = before' @ substr @ after" by simp
      with Cons.IH have "strings_Contains s substr" by blast
      then show ?thesis by simp
    qed
  qed
qed

lemma SearchByName_pods_eq:
  "SearchByName_pods name items pods =
     pods @ map newPodInfo (filter (\<lambda>pod. strings_Contains (Pod.Name pod) name) items)"
  by (induction items arbitrary: pods) simp_all

lemma SearchByIP_namespaces_append:
  "SearchByIP_namespaces cs ip (nss @ rest) pods services =
     (case SearchByIP_namespaces cs ip nss pods services of
        Inl err \<Rightarrow> Inl err
      | Inr (pods', services') \<Rightarrow> SearchByIP_namespaces cs ip rest pods' services')"
  by (induction nss arbitrary: pods services) (simp_all split: sum.splits)

lemma SearchByName_namespaces_append:
  "SearchByName_namespaces cs name (nss @ rest) pods =
     (case SearchByName_namespaces cs name nss pods of
        Inl err \<Rightarrow> Inl err
      | Inr pods' \<Rightarrow> SearchByName_namespaces cs name rest pods')"
  by (induction nss arbitrary: pods) (simp_all split: sum.splits)

lemma SearchByIP_namespaces_all_listed:
  assumes "\<forall>ns \<in> set nss. Pods_List cs ns 0 = Inr (podsOf ns) \<and> Services_List cs ns 0 = Inr (svcsOf ns)"
  shows "SearchByIP_namespaces cs ip nss pods services =
     Inr (pods @ concat (map (\<lambda>ns. map newPodInfo
             (filter (\<lambda>pod. PodStatus.PodIP (Pod.Status pod) = ip \<or> PodStatus.HostIP (Pod.Status pod) = ip)
                (podsOf ns))) nss),
          services @ concat (map (\<lambda>ns. map newServiceInfo (filter (serviceMatched ip) (svcsOf ns))) nss))"
  using assms
  by (induction nss arbitrary: pods services)
     (simp_all add: SearchByIP_pods_eq SearchByIP_services_eq)

lemma SearchByName_namespaces_all_listed:
  assumes "\<forall>ns \<in> set nss. Pods_List cs ns 0 = Inr (podsOf ns)"
  shows "SearchByName_namespaces cs name nss pods =
     Inr (pods @ concat (map (\<lambda>ns. map newPodInfo
             (filter (\<lambda>pod. strings_Contains (Pod.Name pod) name) (podsOf ns))) nss))"
  using assms
  by (induction nss arbitrary: pods) (simp_all add: SearchByName_pods_eq)

lemma strings_Contains_empty: "strings_Contains s []"
  by (induction s) simp_all

lemma GetDeploymentByReplicaSet_owners_first:
  "\<forall>owner \<in> set before. OwnerReference.Kind owner \<noteq> ''Deployment'' \<Longrightarrow>
   OwnerReference.Kind owner = ''Deployment'' \<Longrightarrow>
   GetDeploymentByReplicaSet_owners (before @ owner # after) = Inr (OwnerReference.Name owner)"
  by (induction before) simp_all

lemma GetDeploymentByReplicaSet_owners_none:
  "\<forall>owner \<in> set owners. OwnerReference.Kind owner \<noteq> ''Deployment'' \<Longrightarrow>
   GetDeploymentByReplicaSet_owners owners = Inl (Errorf ''no deployment found for replicaset'')"
  by (induction owners) simp_all

lemma appendNamespaceNames_eq:
  "appendNamespaceNames items acc = acc @ map NamespaceItem.Name items"
  by (induction items arbitrary: acc) simp_all

lemma GetAccessibleNamespaces_probe_eq:
  "GetAccessibleNamespaces_probe cs items accessible =
     accessible @ filter (\<lambda>ns. \<not> isl (Pods_List cs ns 1)) (map NamespaceItem.Name items)"
  by (induction items arbitrary: accessible) (simp_all split: sum.splits)

lemma SearchByIPAllContexts_namespaces_eq:
  "SearchByIPAllContexts_namespaces client contextName ip nss results =
     results @ concat (map (\<lambda>nsName.
        case SearchByIP_namespaces (Clientset client) ip [nsName] [] [] of
          Inl err \<Rightarrow> []
        | Inr (pods, services) \<Rightarrow>
            if 0 < length pods \<or> 0 < length services
            then [\<lparr>SearchResultWithContext.Context = contextName,
                   SearchResultWithContext.Namespace = nsName,
                   SearchResultWithContext.Pods = pods, Services = services\<rparr>]
            else []) nss)"
proof (induction nss arbitrary: client results)
  case Nil
  show ?case by simp
next
  case (Cons nsName rest)
  have c: "Clientset (client\<lparr>K8sClient.Namespaces := [nsName]\<rparr>) = Clientset client" by simp
  show ?case
    by (simp add: Cons.IH c SearchByIP_def split: sum.splits prod.splits)
qed

lemma SearchByNameAllContexts_namespaces_eq:
  "SearchByNameAllContexts_namespaces client contextName name nss results =
     results @ concat (map (\<lambda>nsName.
        case SearchByName_namespaces (Clientset client) name [nsName] [] of
          Inl err \<Rightarrow> []
        | Inr pods \<Rightarrow>
            if 0 < length pods
            then [\<lparr>PodResultWithContext.Context = contextName,
                   PodResultWithContext.Namespace = nsName,
                   PodResultWithContext.Pods = pods\<rparr>]
            else []) nss)"
proof (induction nss arbitrary: client results)
  case Nil
  show ?case by simp
next
  case (Cons nsName rest)
  have c: "Clientset (client\<lparr>K8sClient.Namespaces := [nsName]\<rparr>) = Clientset client" by simp
  show ?case
    by (simp add: Cons.IH c SearchByName_def split: sum.splits)
qed

lemma SearchByIPAllContexts_contexts_eq:
  "SearchByIPAllContexts_contexts w kubeconfigPath ip namespaces ctxs results =
     results @ concat (map (\<lambda>contextName.
        case NewK8sClient w kubeconfigPath contextName [] of
          Inl err \<Rightarrow> []
        | Inr client \<Rightarrow>
            (case namespacesToSearch client namespaces of
               None \<Rightarrow> []
             | Some nss \<Rightarrow> SearchByIPAllContexts_namespaces client contextName ip nss [])) ctxs)"
proof (induction ctxs arbitrary: results)
  case Nil
  show ?case by simp
next
  case (Cons contextName rest)
  have acc: "SearchByIPAllContexts_namespaces client contextName ip nss results =
      results @ SearchByIPAllContexts_namespaces client contextName ip nss []" for client nss
    using SearchByIPAllContexts_namespaces_eq [of client contextName ip nss results]
          SearchByIPAllContexts_namespaces_eq [of client contextName ip nss "[]"]
    by (simp only: append_Nil)
  show ?case
    by (simp add: Cons.IH acc split: sum.splits option.splits)
qed

lemma SearchByNameAllContexts_contexts_eq:
  "SearchByNameAllContexts_contexts w kubeconfigPath name namespaces ctxs results =
     results @ concat (map (\<lambda>contextName.
        case NewK8sClient w kubeconfigPath contextName [] of
          Inl err \<Rightarrow> []
        | Inr client \<Rightarrow>
            (case namespacesToSearch client namespaces of
               None \<Rightarrow> []
             | Some nss \<Rightarrow> SearchByNameAllContexts_namespaces client contextName name nss [])) ctxs)"
proof (induction ctxs arbitrary: results)
  case Nil
  show ?case by simp
next
  case (Cons contextName rest)
  have acc: "SearchByNameAllContexts_namespaces client contextName name nss results =
      results @ SearchByNameAllContexts_namespaces client contextName name nss []" for client nss
    using SearchByNameAllContexts_namespaces_eq [of client contextName name nss results]
          SearchByNameAllContexts_namespaces_eq [of client contextName name nss "[]"]
    by (simp only: append_Nil)
  show ?case
    by (simp add: Cons.IH acc split: sum.splits option.splits)
qed

lemma SearchByIPAllContexts_namespaces_member:
  assumes "r \<in> set (SearchByIPAllContexts_namespaces client contextName ip nss [])"
  shows "SearchResultWithContext.Context r = contextName
       \<and> SearchResultWithContext.Namespace r \<in> set nss
       \<and> SearchByIP (client\<lparr>K8sClient.Namespaces := [SearchResultWithContext.Namespace r]\<rparr>) ip
           = Inr (SearchResultWithContext.Pods r, Services r)
       \<and> (0 < length (SearchResultWithContext.Pods r) \<or> 0 < length (Services r))"
  using assms
  unfolding SearchByIPAllContexts_namespaces_eq [of client contextName ip nss "[]"] SearchByIP_def
  by (auto simp del: SearchByIP_namespaces.simps split: sum.splits prod.splits if_splits)

lemma SearchByNameAllContexts_namespaces_member:
  assumes "r \<in> set (SearchByNameAllContexts_namespaces client contextName name nss [])"
  shows "PodResultWithContext.Context r = contextName
       \<and> PodResultWithContext.Namespace r \<in> set nss
       \<and> SearchByName (client\<lparr>K8sClient.Namespaces := [PodResultWithContext.Namespace r]\<rparr>) name
           = Inr (PodResultWithContext.Pods r)
       \<and> 0 < length (PodResultWithContext.Pods r)"
  using assms
  unfolding SearchByNameAllContexts_namespaces_eq [of client contextName name nss "[]"] SearchByName_def
  by (auto simp del: SearchByName_namespaces.simps split: sum.splits if_splits)

lemma SearchByIPAllContexts_contexts_member:
  assumes "r \<in> set (SearchByIPAllContexts_contexts w kubeconfigPath ip namespaces ctxs [])"
  shows "\<exists>client nss.
           SearchResultWithContext.Context r \<in> set ctxs
         \<and> NewK8sClient w kubeconfigPath (SearchResultWithContext.Context r) [] = Inr client
         \<and> namespacesToSearch client namespaces = Some nss
         \<and> SearchResultWithContext.Namespace r \<in> set nss
         \<and> SearchByIP (client\<lparr>K8sClient.Namespaces := [SearchResultWithContext.Namespace r]\<rparr>) ip
             = Inr (SearchResultWithContext.Pods r, Services r)
         \<and> (0 < length (SearchResultWithContext.Pods r) \<or> 0 < length (Services r))"
proof -
  from assms obtain contextName client nss where
      c: "contextName \<in> set ctxs"
      and k: "NewK8sClient w kubeconfigPath contextName [] = Inr client"
      and n: "namespacesToSearch client namespaces = Some nss"
      and r: "r \<in> set (SearchByIPAllContexts_namespaces client contextName ip nss [])"
    unfolding SearchByIPAllContexts_contexts_eq [of w kubeconfigPath ip namespaces ctxs "[]"]
    by (auto split: sum.splits option.splits) metis
  from SearchByIPAllContexts_namespaces_member [OF r] c k n show ?thesis by blast
qed

lemma SearchByNameAllContexts_contexts_member:
  assumes "r \<in> set (SearchByNameAllContexts_contexts w kubeconfigPath name namespaces ctxs [])"
  shows "\<exists>client nss.
           PodResultWithContext.Context r \<in> set ctxs
         \<and> NewK8sClient w kubeconfigPath (PodResultWithContext.Context r) [] = Inr client
         \<and> namespacesToSearch client namespaces = Some nss
         \<and> PodResultWithContext.Namespace r \<in> set nss
         \<and> SearchByName (client\<lparr>K8sClient.Namespaces := [PodResultWithContext.Namespace r]\<rparr>) name
             = Inr (PodResultWithContext.Pods r)
         \<and> 0 < length (PodResultWithContext.Pods r)"
proof -
  from assms obtain contextName client nss where
      c: "contextName \<in> set ctxs"
      and k: "NewK8sClient w kubeconfigPath contextName [] = Inr client"
      and n: "namespacesToSearch client namespaces = Some nss"
      and r: "r \<in> set (SearchByNameAllContexts_namespaces client contextName name nss [])"
    unfolding SearchByNameAllContexts_contexts_eq [of w kubeconfigPath name namespaces ctxs "[]"]
    by (auto split: sum.splits option.splits) metis
  from SearchByNameAllContexts_namespaces_member [OF r] c k n show ?thesis by blast
qed

text \<open>
  The loops of the aggregate searches produce the merged list of the specification: the
  included results of every context, context after context and namespace after namespace.
\<close>

lemma scopedResultIP_Namespaces [simp]:
  "scopedResultIP (client\<lparr>K8sClient.Namespaces := nss\<rparr>) = scopedResultIP client"
  by (rule ext)+ (simp add: scopedResultIP_def)

lemma scopedResultName_Namespaces [simp]:
  "scopedResultName (client\<lparr>K8sClient.Namespaces := nss\<rparr>) = scopedResultName client"
  by (rule ext)+ (simp add: scopedResultName_def)

lemma SearchByIPAllContexts_namespaces_merged:
  "SearchByIPAllContexts_namespaces client contextName ip nss results =
     results @ concat (map (scopedResultIP client contextName ip) nss)"
proof (induction nss arbitrary: client results)
  case Nil
  show ?case by simp
next
  case (Cons nsName rest)
  show ?case
    by (cases "SearchByIP (client\<lparr>K8sClient.Namespaces := [nsName]\<rparr>) ip")
       (auto simp: Cons.IH scopedResultIP_def)
qed

lemma SearchByNameAllContexts_namespaces_merged:
  "SearchByNameAllContexts_namespaces client contextName name nss results =
     results @ concat (map (scopedResultName client contextName name) nss)"
proof (induction nss arbitrary: client results)
  case Nil
  show ?case by simp
next
  case (Cons nsName rest)
  show ?case
    by (cases "SearchByName (client\<lparr>K8sClient.Namespaces := [nsName]\<rparr>) name")
       (auto simp: Cons.IH scopedResultName_def)
qed

lemma namespacesToSearch_eq:
  "namespacesToSearch client namespaces =
     (if namespaces \<noteq> [] then Some namespaces
      else case Namespaces_List (Clientset client) 0 of
             Inl err \<Rightarrow> None
           | Inr namespaceList \<Rightarrow> Some (map NamespaceItem.Name namespaceList))"
  by (simp add: namespacesToSearch_def appendNamespaceNames_eq split: sum.splits)

lemma SearchByIPAllContexts_contexts_merged:
  "SearchByIPAllContexts_contexts w kubeconfigPath ip namespaces ctxs results =
     results @ concat (map (contextResultsIP w kubeconfigPath ip namespaces) ctxs)"
proof (induction ctxs arbitrary: results)
  case Nil
  show ?case by simp
next
  case (Cons contextName rest)
  have step: "SearchByIPAllContexts_contexts w kubeconfigPath ip namespaces (contextName # rest) results =
      SearchByIPAllContexts_contexts w kubeconfigPath ip namespaces rest
        (results @ contextResultsIP w kubeconfigPath ip namespaces contextName)"
    by (simp add: contextResultsIP_def namespacesToSearch_eq
          SearchByIPAllContexts_namespaces_merged split: sum.splits)
  show ?case
    unfolding step by (simp add: Cons.IH)
qed

lemma SearchByNameAllContexts_contexts_merged:
  "SearchByNameAllContexts_contexts w kubeconfigPath name namespaces ctxs results =
     results @ concat (map (contextResultsName w kubeconfigPath name namespaces) ctxs)"
proof (induction ctxs arbitrary: results)
  case Nil
  show ?case by simp
next
  case (Cons contextName rest)
  have step: "SearchByNameAllContexts_contexts w kubeconfigPath name namespaces (contextName # rest) results =
      SearchByNameAllContexts_contexts w kubeconfigPath name namespaces rest
        (results @ contextResultsName w kubeconfigPath name namespaces contextName)"
    by (simp add: contextResultsName_def namespacesToSearch_eq
          SearchByNameAllContexts_namespaces_merged split: sum.splits)
  show ?case
    unfolding step by (simp add: Cons.IH)
qed

lemma SearchByIPAllContexts_merged:
  "LoadKubeConfig w kubeconfigPath = Inr config \<Longrightarrow>
   SearchByIPAllContexts w kubeconfigPath ip namespaces =
     Inr (concat (map (contextResultsIP w kubeconfigPath ip namespaces) (GetContexts config)))"
  by (simp add: SearchByIPAllContexts_def SearchByIPAllContexts_contexts_merged)

lemma SearchByNameAllContexts_merged:
  "LoadKubeConfig w kubeconfigPath = Inr config \<Longrightarrow>
   SearchByNameAllContexts w kubeconfigPath name namespaces =
     Inr (concat (map (contextResultsName w kubeconfigPath name namespaces) (GetContexts config)))"
  by (simp add: SearchByNameAllContexts_def SearchByNameAllContexts_contexts_merged)

lemma contextResultsIP_no_namespace:
  "searchedNamespaces w kubeconfigPath namespaces contextName = [] \<Longrightarrow>
   contextResultsIP w kubeconfigPath ip namespaces contextName = []"
  by (auto simp: searchedNamespaces_def contextResultsIP_def namespacesToSearch_eq
        split: sum.splits if_splits)

lemma contextResultsName_no_namespace:
  "searchedNamespaces w kubeconfigPath namespaces contextName = [] \<Longrightarrow>
   contextResultsName w kubeconfigPath name namespaces contextName = []"
  by (auto simp: searchedNamespaces_def contextResultsName_def namespacesToSearch_eq
        split: sum.splits if_splits)

lemma no_scope_no_namespace:
  assumes "LoadKubeConfig w kubeconfigPath = Inr config"
      and "searchableScopes w kubeconfigPath namespaces = []"
      and "contextName \<in> set (GetContexts config)"
  shows "searchedNamespaces w kubeconfigPath namespaces contextName = []"
  using assms by (auto simp: searchableScopes_def)

lemma scopedResultIP_Context:
  "r \<in> set (scopedResultIP client contextName ip nsName) \<Longrightarrow>
   SearchResultWithContext.Context r = contextName"
  by (cases "SearchByIP (client\<lparr>K8sClient.Namespaces := [nsName]\<rparr>) ip")
     (auto simp: scopedResultIP_def split: if_splits)

lemma scopedResultName_Context:
  "r \<in> set (scopedResultName client contextName name nsName) \<Longrightarrow>
   PodResultWithContext.Context r = contextName"
  by (cases "SearchByName (client\<lparr>K8sClient.Namespaces := [nsName]\<rparr>) name")
     (auto simp: scopedResultName_def split: if_splits)

lemma contextResultsIP_Context:
  assumes "r \<in> set (contextResultsIP w kubeconfigPath ip namespaces contextName)"
  shows "SearchResultWithContext.Context r = contextName"
proof (cases "NewK8sClient w kubeconfigPath contextName []")
  case (Inl err)
  with assms show ?thesis by (simp add: contextResultsIP_def)
next
  case (Inr client)
  show ?thesis
  proof (cases "Namespaces_List (Clientset client) 0")
    case (Inl err)
    with assms \<open>NewK8sClient w kubeconfigPath contextName [] = Inr client\<close> show ?thesis
      by (auto simp: contextResultsIP_def split: if_splits dest: scopedResultIP_Context)
  next
    case (Inr namespaceList)
    with assms \<open>NewK8sClient w kubeconfigPath contextName [] = Inr client\<close> show ?thesis
      by (auto simp: contextResultsIP_def split: if_splits dest: scopedResultIP_Context)
  qed
qed

lemma contextResultsName_Context:
  assumes "r \<in> set (contextResultsName w kubeconfigPath name namespaces contextName)"
  shows "PodResultWithContext.Context r = contextName"
proof (cases "NewK8sClient w kubeconfigPath contextName []")
  case (Inl err)
  with assms show ?thesis by (simp add: contextResultsName_def)
next
  case (Inr client)
  show ?thesis
  proof (cases "Namespaces_List (Clientset client) 0")
    case (Inl err)
    with assms \<open>NewK8sClient w kubeconfigPath contextName [] = Inr client\<close> show ?thesis
      by (auto simp: contextResultsName_def split: if_splits dest: scopedResultName_Context)
  next
    case (Inr namespaceList)
    with assms \<open>NewK8sClient w kubeconfigPath contextName [] = Inr client\<close> show ?thesis
      by (auto simp: contextResultsName_def split: if_splits dest: scopedResultName_Context)
  qed
qed

lemma filter_concat_map_key:
  assumes "distinct xs" and "x \<in> set xs"
      and "\<And>y r. r \<in> set (f y) \<Longrightarrow> key r = y"
  shows "filter (\<lambda>r. key r = x) (concat (map f xs)) = f x"
  using assms(1,2)
proof (induction xs)
  case Nil
  then show ?case by simp
next
  case (Cons y ys)
  have same: "filter (\<lambda>r. key r = x) (f x) = f x"
    using assms(3) by (simp add: filter_id_conv)
  have other: "filter (\<lambda>r. key r = x) (f z) = []" if "z \<noteq> x" for z
    using assms(3) that by (auto simp: filter_empty_conv)
  have rest: "filter (\<lambda>r. key r = x) (concat (map f zs)) = []" if "x \<notin> set zs" for zs
    using that assms(3) by (auto simp: filter_empty_conv)
  show ?case
  proof (cases "y = x")
    case True
    with Cons.prems have "x \<notin> set ys" by simp
    with True same show ?thesis by (simp add: rest)
  next
    case False
    with Cons have "filter (\<lambda>r. key r = x) (concat (map f ys)) = f x" by simp
    with False show ?thesis by (simp add: other)
  qed
qed

lemma contextResultsIP_searchedNamespaces:
  "contextResultsIP w kubeconfigPath ip namespaces contextName =
     (case NewK8sClient w kubeconfigPath contextName [] of
        Inl err \<Rightarrow> []
      | Inr client \<Rightarrow>
          concat (map (scopedResultIP client contextName ip)
                    (searchedNamespaces w kubeconfigPath namespaces contextName)))"
  by (simp add: contextResultsIP_def searchedNamespaces_def namespacesToSearch_eq split: sum.splits)

lemma contextResultsName_searchedNamespaces:
  "contextResultsName w kubeconfigPath name namespaces contextName =
     (case NewK8sClient w kubeconfigPath contextName [] of
        Inl err \<Rightarrow> []
      | Inr client \<Rightarrow>
          concat (map (scopedResultName client contextName name)
                    (searchedNamespaces w kubeconfigPath namespaces contextName)))"
  by (simp add: contextResultsName_def searchedNamespaces_def namespacesToSearch_eq split: sum.splits)

lemma SearchByIP_namespaces_permission_only:
  assumes "\<forall>ns \<in> set nss.
             (\<forall>err. Pods_List cs ns 0 = Inl err \<longrightarrow> IsPermissionError err)
           \<and> (\<forall>podList err. Pods_List cs ns 0 = Inr podList \<and> Services_List cs ns 0 = Inl err
                  \<longrightarrow> IsPermissionError err)"
  shows "SearchByIP_namespaces cs ip nss pods services =
     Inr (pods @ concat (map (\<lambda>ns.
             case Pods_List cs ns 0 of
               Inl err \<Rightarrow> []
             | Inr podList \<Rightarrow> map newPodInfo
                 (filter (\<lambda>pod. PodStatus.PodIP (Pod.Status pod) = ip
                              \<or> PodStatus.HostIP (Pod.Status pod) = ip) podList)) nss),
          services @ concat (map (\<lambda>ns.
             case Pods_List cs ns 0 of
               Inl err \<Rightarrow> []
             | Inr podList \<Rightarrow>
                 (case Services_List cs ns 0 of
                    Inl err \<Rightarrow> []
                  | Inr svcList \<Rightarrow> map newServiceInfo (filter (serviceMatched ip) svcList))) nss))"
  using assms
proof (induction nss arbitrary: pods services)
  case Nil
  show ?case by simp
next
  case (Cons ns rest)
  then have ih: "\<And>pods services. SearchByIP_namespaces cs ip rest pods services =
     Inr (pods @ concat (map (\<lambda>ns.
             case Pods_List cs ns 0 of
               Inl err \<Rightarrow> []
             | Inr podList \<Rightarrow> map newPodInfo
                 (filter (\<lambda>pod. PodStatus.PodIP (Pod.Status pod) = ip
                              \<or> PodStatus.HostIP (Pod.Status pod) = ip) podList)) rest),
          services @ concat (map (\<lambda>ns.
             case Pods_List cs ns 0 of
               Inl err \<Rightarrow> []
             | Inr podList \<Rightarrow>
                 (case Services_List cs ns 0 of
                    Inl err \<Rightarrow> []
                  | Inr svcList \<Rightarrow> map newServiceInfo (filter (serviceMatched ip) svcList))) rest))"
    by simp
  from Cons.prems have p: "\<And>err. Pods_List cs ns 0 = Inl err \<Longrightarrow> isPermissionError err"
    and s: "\<And>podList err. Pods_List cs ns 0 = Inr podList \<Longrightarrow> Services_List cs ns 0 = Inl err
              \<Longrightarrow> isPermissionError err"
    by (auto simp: isPermissionError_def)
  show ?case
  proof (cases "Pods_List cs ns 0")
    case (Inl err)
    with p [OF Inl] show ?thesis by (simp add: ih)
  next
    case (Inr podList)
    show ?thesis
    proof (cases "Services_List cs ns 0")
      case (Inl err)
      with Inr s [OF Inr Inl] show ?thesis by (simp add: ih SearchByIP_pods_eq)
    next
      case svc: (Inr svcList)
      with Inr show ?thesis by (simp add: ih SearchByIP_pods_eq SearchByIP_services_eq)
    qed
  qed
qed

lemma SearchByName_namespaces_permission_only:
  assumes "\<forall>ns \<in> set nss. \<forall>err. Pods_List cs ns 0 = Inl err \<longrightarrow> IsPermissionError err"
  shows "SearchByName_namespaces cs name nss pods =
     Inr (pods @ concat (map (\<lambda>ns.
             case Pods_List cs ns 0 of
               Inl err \<Rightarrow> []
             | Inr podList \<Rightarrow> map newPodInfo
                 (filter (\<lambda>pod. strings_Contains (Pod.Name pod) name) podList)) nss))"
  using assms
proof (induction nss arbitrary: pods)
  case Nil
  show ?case by simp
next
  case (Cons ns rest)
  then have ih: "\<And>pods. SearchByName_namespaces cs name rest pods =
     Inr (pods @ concat (map (\<lambda>ns.
             case Pods_List cs ns 0 of
               Inl err \<Rightarrow> []
             | Inr podList \<Rightarrow> map newPodInfo
                 (filter (\<lambda>pod. strings_Contains (Pod.Name pod) name) podList)) rest))"
    by simp
  from Cons.prems have p: "\<And>err. Pods_List cs ns 0 = Inl err \<Longrightarrow> isPermissionError err"
    by (auto simp: isPermissionError_def)
  show ?case
  proof (cases "Pods_List cs ns 0")
    case (Inl err)
    with p [OF Inl] show ?thesis by (simp add: ih)
  next
    case (Inr podList)
    then show ?thesis by (simp add: ih SearchByName_pods_eq)
  qed
qed

lemma NewK8sClient_current_context:
  "LoadKubeConfig w kubeconfigPath = Inr config \<Longrightarrow>
   NewK8sClient w kubeconfigPath (CurrentContext config) namespaces
     = NewK8sClient w kubeconfigPath [] namespaces"
  by (simp add: NewK8sClient_def)

text \<open>Every entry of an aggregate result belongs to a scope of the search.\<close>

lemma results_within_searchableScopes:
  assumes "SearchByIPAllContexts w kubeconfigPath ip namespaces = Inr results"
      and "r \<in> set results"
  shows "(SearchResultWithContext.Context r, SearchResultWithContext.Namespace r)
           \<in> set (searchableScopes w kubeconfigPath namespaces)"
proof -
  from assms obtain config where
      l: "LoadKubeConfig w kubeconfigPath = Inr config"
      and r: "r \<in> set (SearchByIPAllContexts_contexts w kubeconfigPath ip namespaces (GetContexts config) [])"
    by (auto simp: SearchByIPAllContexts_def split: sum.splits)
  from SearchByIPAllContexts_contexts_member [OF r] obtain client nss where
      c: "SearchResultWithContext.Context r \<in> set (GetContexts config)"
      and k: "NewK8sClient w kubeconfigPath (SearchResultWithContext.Context r) [] = Inr client"
      and n: "namespacesToSearch client namespaces = Some nss"
      and m: "SearchResultWithContext.Namespace r \<in> set nss"
    by blast
  from k n m have "SearchResultWithContext.Namespace r
      \<in> set (searchedNamespaces w kubeconfigPath namespaces (SearchResultWithContext.Context r))"
    by (simp add: searchedNamespaces_def)
  with l c show ?thesis
    by (auto simp: searchableScopes_def)
qed

section \<open>The fixtures\<close>

lemma testWorld_config:
  "LoadKubeConfig testWorld ''/kube/config''
     = Inr \<lparr>Contexts = [''context-1'', ''context-2'', ''context-3''], CurrentContext = ''context-1''\<rparr>"
  by (simp add: LoadKubeConfig_def testWorld_def)

lemma testWorld_clients:
  "NewK8sClient testWorld ''/kube/config'' ''context-1'' []
     = Inr \<lparr>Clientset = fakeClient,
            Config = \<lparr>Contexts = [''context-1'', ''context-2'', ''context-3''],
                      CurrentContext = ''context-1''\<rparr>,
            K8sClient.Namespaces = []\<rparr>"
  "NewK8sClient testWorld ''/kube/config'' [] []
     = Inr \<lparr>Clientset = fakeClient,
            Config = \<lparr>Contexts = [''context-1'', ''context-2'', ''context-3''],
                      CurrentContext = ''context-1''\<rparr>,
            K8sClient.Namespaces = []\<rparr>"
  "NewK8sClient testWorld ''/kube/config'' ''context-2'' []
     = Inl (Wrapf ''failed to create rest config'' (Failure ''invalid configuration''))"
  "NewK8sClient testWorld ''/kube/config'' ''context-3'' []
     = Inr \<lparr>Clientset = restrictedClient,
            Config = \<lparr>Contexts = [''context-1'', ''context-2'', ''context-3''],
                      CurrentContext = ''context-1''\<rparr>,
            K8sClient.Namespaces = []\<rparr>"
  by (simp_all add: NewK8sClient_def testWorld_config) (simp_all add: testWorld_def)

lemma testWorld_locked_client:
  "NewK8sClient testWorld ''/kube/locked'' [] []
     = Inr \<lparr>Clientset = lockedClient,
            Config = \<lparr>Contexts = [''context-l''], CurrentContext = ''context-l''\<rparr>,
            K8sClient.Namespaces = []\<rparr>"
  "NewK8sClient testWorld ''/kube/locked'' ''context-l'' []
     = Inr \<lparr>Clientset = lockedClient,
            Config = \<lparr>Contexts = [''context-l''], CurrentContext = ''context-l''\<rparr>,
            K8sClient.Namespaces = []\<rparr>"
  by (simp_all add: NewK8sClient_def LoadKubeConfig_def testWorld_def Let_def)

lemma testWorld_accessible:
  "GetAccessibleNamespaces testWorld ''/kube/config'' [] = Inr [''default'', ''test-ns'']"
  "GetAccessibleNamespaces testWorld ''/kube/locked'' [] = Inr []"
  by (simp_all add: GetAccessibleNamespaces_def testWorld_clients testWorld_locked_client)
     (simp_all add: fakeClient_def lockedClient_def)

lemma testWorld_nolist_config:
  "LoadKubeConfig testWorld ''/kube/nolist''
     = Inr \<lparr>Contexts = [''context-n'', ''context-1''], CurrentContext = ''context-n''\<rparr>"
  by (simp add: LoadKubeConfig_def testWorld_def)

lemma testWorld_nolist_clients:
  "NewK8sClient testWorld ''/kube/nolist'' ''context-n'' []
     = Inr \<lparr>Clientset = noListClient,
            Config = \<lparr>Contexts = [''context-n'', ''context-1''], CurrentContext = ''context-n''\<rparr>,
            K8sClient.Namespaces = []\<rparr>"
  "NewK8sClient testWorld ''/kube/nolist'' [] []
     = Inr \<lparr>Clientset = noListClient,
            Config = \<lparr>Contexts = [''context-n'', ''context-1''], CurrentContext = ''context-n''\<rparr>,
            K8sClient.Namespaces = []\<rparr>"
  "NewK8sClient testWorld ''/kube/nolist'' ''context-1'' []
     = Inr \<lparr>Clientset = fakeClient,
            Config = \<lparr>Contexts = [''context-n'', ''context-1''], CurrentContext = ''context-n''\<rparr>,
            K8sClient.Namespaces = []\<rparr>"
  by (simp_all add: NewK8sClient_def testWorld_nolist_config) (simp_all add: testWorld_def)

lemma testWorld_unreachable:
  "LoadKubeConfig testWorld ''/kube/unreachable''
     = Inr \<lparr>Contexts = [''context-2''], CurrentContext = ''context-2''\<rparr>"
  "NewK8sClient testWorld ''/kube/unreachable'' ''context-2'' []
     = Inl (Wrapf ''failed to create rest config'' (Failure ''invalid configuration''))"
  by (simp_all add: NewK8sClient_def LoadKubeConfig_def testWorld_def)

lemma testWorld_nolist_accessible:
  "GetAccessibleNamespaces testWorld ''/kube/nolist'' [] = Inl (StatusError Forbidden 403)"
  by (simp add: GetAccessibleNamespaces_def testWorld_nolist_clients noListClient_def)

lemma testWorld_restricted_config:
  "LoadKubeConfig testWorld ''/kube/restricted''
     = Inr \<lparr>Contexts = [''context-3'', ''context-1''], CurrentContext = ''context-3''\<rparr>"
  by (simp add: LoadKubeConfig_def testWorld_def)

lemma testWorld_restricted_clients:
  "NewK8sClient testWorld ''/kube/restricted'' ''context-3'' []
     = Inr \<lparr>Clientset = restrictedClient,
            Config = \<lparr>Contexts = [''context-3'', ''context-1''], CurrentContext = ''context-3''\<rparr>,
            K8sClient.Namespaces = []\<rparr>"
  "NewK8sClient testWorld ''/kube/restricted'' [] []
     = Inr \<lparr>Clientset = restrictedClient,
            Config = \<lparr>Contexts = [''context-3'', ''context-1''], CurrentContext = ''context-3''\<rparr>,
            K8sClient.Namespaces = []\<rparr>"
  "NewK8sClient testWorld ''/kube/restricted'' ''context-1'' []
     = Inr \<lparr>Clientset = fakeClient,
            Config = \<lparr>Contexts = [''context-3'', ''context-1''], CurrentContext = ''context-3''\<rparr>,
            K8sClient.Namespaces = []\<rparr>"
  by (simp_all add: NewK8sClient_def testWorld_restricted_config) (simp_all add: testWorld_def)

lemma testWorld_restricted_accessible:
  "GetAccessibleNamespaces testWorld ''/kube/restricted'' [] = Inr [''default'', ''svc-denied'']"
  by (simp add: GetAccessibleNamespaces_def testWorld_restricted_clients restrictedClient_def)

lemma testWorld_ValidateIP: "ValidateIP testWorld ''10.0.0.1''"
  by (simp add: ValidateIP_def testWorld_def)

section \<open>Per-scope search: matching\<close>

text \<open>
  C5. IP-match semantics. When the pod list and the service list of every searched
  namespace are returned, \<open>SearchByIP\<close> returns, namespace after namespace and in
  listing order, the record of exactly every listed pod whose pod IP or host IP equals the
  query, and the record of exactly every listed service whose cluster IP equals the query,
  or one of whose external IPs equals it, or whose type is LoadBalancer and one of whose
  load-balancer ingress IPs equals it. Equality is equality of strings.
\<close>

theorem SearchByIP_match_semantics:
  assumes "\<forall>ns \<in> set (K8sClient.Namespaces c).
             Pods_List (Clientset c) ns 0 = Inr (podsOf ns)
           \<and> Services_List (Clientset c) ns 0 = Inr (svcsOf ns)"
  shows "SearchByIP c ip =
     Inr (concat (map (\<lambda>ns. map newPodInfo
             (filter (\<lambda>pod. PodStatus.PodIP (Pod.Status pod) = ip
                          \<or> PodStatus.HostIP (Pod.Status pod) = ip) (podsOf ns)))
            (K8sClient.Namespaces c)),
          concat (map (\<lambda>ns. map newServiceInfo
             (filter (\<lambda>svc. ServiceSpec.ClusterIP (Spec svc) = ip
                          \<or> ip \<in> set (ServiceSpec.ExternalIPs (Spec svc))
                          \<or> (ServiceSpec.Type (Spec svc) = ''LoadBalancer''
                             \<and> ip \<in> IP ` set (Ingress (LoadBalancer (Service.Status svc)))))
                (svcsOf ns)))
            (K8sClient.Namespaces c)))"
proof -
  have m: "serviceMatched ip = (\<lambda>svc. ServiceSpec.ClusterIP (Spec svc) = ip
                          \<or> ip \<in> set (ServiceSpec.ExternalIPs (Spec svc))
                          \<or> (ServiceSpec.Type (Spec svc) = ''LoadBalancer''
                             \<and> ip \<in> IP ` set (Ingress (LoadBalancer (Service.Status svc)))))"
    by (rule ext) (rule serviceMatched_iff)
  show ?thesis
    unfolding SearchByIP_def
    using SearchByIP_namespaces_all_listed [OF assms, of ip "[]" "[]"]
    by (simp only: m append_Nil)
qed

theorem SearchByIP_match_semantics_witness:
  "Pods_List (Clientset (clientFor fakeClient [''default'', ''test-ns''])) ''default'' 0
       = Inr [pod1, redisPod]
   \<and> Pods_List (Clientset (clientFor fakeClient [''default'', ''test-ns''])) ''test-ns'' 0
       = Inr [pod2]
   \<and> Services_List (Clientset (clientFor fakeClient [''default'', ''test-ns''])) ''default'' 0
       = Inr [testSvc, lbSvc, staleSvc]
   \<and> Services_List (Clientset (clientFor fakeClient [''default'', ''test-ns''])) ''test-ns'' 0
       = Inr []
   \<and> SearchByIP (clientFor fakeClient [''default'', ''test-ns'']) ''203.0.113.2''
       = Inr ([], [newServiceInfo lbSvc])
   \<and> SearchByIP (clientFor fakeClient [''default'', ''test-ns'']) ''192.168.1.2''
       = Inr ([newPodInfo pod2], [])"
  using SearchByIP_match_semantics [of "clientFor fakeClient [''default'', ''test-ns'']"
          "\<lambda>ns. if ns = ''default'' then [pod1, redisPod] else [pod2]"
          "\<lambda>ns. if ns = ''default'' then [testSvc, lbSvc, staleSvc] else []" "''203.0.113.2''"]
        SearchByIP_match_semantics [of "clientFor fakeClient [''default'', ''test-ns'']"
          "\<lambda>ns. if ns = ''default'' then [pod1, redisPod] else [pod2]"
          "\<lambda>ns. if ns = ''default'' then [testSvc, lbSvc, staleSvc] else []" "''192.168.1.2''"]
  by (simp add: clientFor_def fakeClient_def pod1_def pod2_def redisPod_def testSvc_def lbSvc_def staleSvc_def)

text \<open>
  C8. Name-match semantics. When the pod list of every searched namespace is returned,
  \<open>SearchByName\<close> returns the record of exactly every listed pod whose name contains the
  query as a contiguous substring, compared byte for byte (the query may also be empty,
  see C9). A pod's record carries the kind and the name of the pod's first owner reference,
  or two empty strings when the pod has none.
\<close>

theorem SearchByName_match_semantics:
  assumes "\<forall>ns \<in> set (K8sClient.Namespaces c). Pods_List (Clientset c) ns 0 = Inr (podsOf ns)"
  shows "SearchByName c name =
     Inr (concat (map (\<lambda>ns. map newPodInfo
             (filter (\<lambda>pod. \<exists>before after. Pod.Name pod = before @ name @ after) (podsOf ns)))
            (K8sClient.Namespaces c)))
   \<and> (\<forall>pod. OwnerKind (newPodInfo pod) =
              (case Pod.OwnerReferences pod of [] \<Rightarrow> [] | owner # _ \<Rightarrow> OwnerReference.Kind owner)
          \<and> OwnerName (newPodInfo pod) =
              (case Pod.OwnerReferences pod of [] \<Rightarrow> [] | owner # _ \<Rightarrow> OwnerReference.Name owner)
          \<and> PodInfo.Name (newPodInfo pod) = Pod.Name pod)"
proof
  show "SearchByName c name =
     Inr (concat (map (\<lambda>ns. map newPodInfo
             (filter (\<lambda>pod. \<exists>before after. Pod.Name pod = before @ name @ after) (podsOf ns)))
            (K8sClient.Namespaces c)))"
    unfolding SearchByName_def
    using SearchByName_namespaces_all_listed [OF assms, of name "[]"]
    by (simp only: strings_Contains_iff append_Nil)
next
  show "\<forall>pod. OwnerKind (newPodInfo pod) =
              (case Pod.OwnerReferences pod of [] \<Rightarrow> [] | owner # _ \<Rightarrow> OwnerReference.Kind owner)
          \<and> OwnerName (newPodInfo pod) =
              (case Pod.OwnerReferences pod of [] \<Rightarrow> [] | owner # _ \<Rightarrow> OwnerReference.Name owner)
          \<and> PodInfo.Name (newPodInfo pod) = Pod.Name pod"
    by (simp add: newPodInfo_def getOwnerInfo_def split: list.splits)
qed

theorem SearchByName_match_semantics_witness:
  "Pods_List (Clientset (clientFor fakeClient [''default'', ''test-ns''])) ''default'' 0
       = Inr [pod1, redisPod]
   \<and> Pods_List (Clientset (clientFor fakeClient [''default'', ''test-ns''])) ''test-ns'' 0
       = Inr [pod2]
   \<and> SearchByName (clientFor fakeClient [''default'', ''test-ns'']) ''pod-''
       = Inr [newPodInfo pod1, newPodInfo pod2]
   \<and> OwnerKind (newPodInfo pod1) = ''ReplicaSet'' \<and> OwnerName (newPodInfo pod1) = ''test-rs-1''
   \<and> OwnerKind (newPodInfo pod2) = [] \<and> OwnerName (newPodInfo pod2) = []"
  using SearchByName_match_semantics [of "clientFor fakeClient [''default'', ''test-ns'']"
          "\<lambda>ns. if ns = ''default'' then [pod1, redisPod] else [pod2]" "''pod-''",
          unfolded strings_Contains_iff [symmetric]]
  by (simp add: clientFor_def fakeClient_def pod1_def pod2_def redisPod_def)

text \<open>
  C9. With the empty string as the query, \<open>SearchByName\<close> returns the record of every
  pod of every searched namespace. The empty name is rejected by the command-line callers
  \<open>SearchK8sByName\<close> and \<open>SearchK8sByNameAllContexts\<close>, which return the error
  "name cannot be empty" for it whatever the cluster holds.
\<close>

theorem SearchByName_empty_query:
  "((\<forall>ns \<in> set (K8sClient.Namespaces c). Pods_List (Clientset c) ns 0 = Inr (podsOf ns))
      \<longrightarrow> SearchByName c [] =
            Inr (concat (map (\<lambda>ns. map newPodInfo (podsOf ns)) (K8sClient.Namespaces c))))
   \<and> SearchK8sByName w config [] = Some (Errorf ''name cannot be empty'')
   \<and> SearchK8sByNameAllContexts w kubeconfigPath [] namespaces = Some (Errorf ''name cannot be empty'')"
proof (intro conjI impI)
  assume a: "\<forall>ns \<in> set (K8sClient.Namespaces c). Pods_List (Clientset c) ns 0 = Inr (podsOf ns)"
  show "SearchByName c [] =
            Inr (concat (map (\<lambda>ns. map newPodInfo (podsOf ns)) (K8sClient.Namespaces c)))"
    unfolding SearchByName_def
    using SearchByName_namespaces_all_listed [OF a, of "[]" "[]"]
    by (simp add: strings_Contains_empty)
next
  show "SearchK8sByName w config [] = Some (Errorf ''name cannot be empty'')"
    by (simp add: SearchK8sByName_def)
next
  show "SearchK8sByNameAllContexts w kubeconfigPath [] namespaces = Some (Errorf ''name cannot be empty'')"
    by (simp add: SearchK8sByNameAllContexts_def SearchK8sByNameAllContexts_results_def)
qed

theorem SearchByName_empty_query_witness:
  "Pods_List (Clientset (clientFor fakeClient [''default'', ''test-ns''])) ''default'' 0
       = Inr [pod1, redisPod]
   \<and> Pods_List (Clientset (clientFor fakeClient [''default'', ''test-ns''])) ''test-ns'' 0
       = Inr [pod2]
   \<and> SearchByName (clientFor fakeClient [''default'', ''test-ns'']) []
       = Inr [newPodInfo pod1, newPodInfo redisPod, newPodInfo pod2]"
  using SearchByName_empty_query [of "clientFor fakeClient [''default'', ''test-ns'']"
          "\<lambda>ns. if ns = ''default'' then [pod1, redisPod] else [pod2]"]
  by (simp add: clientFor_def fakeClient_def)

section \<open>Per-scope search: errors\<close>

text \<open>
  C10. When the pod list call or the service list call of some namespace fails with an
  error that is not a permission error, \<open>SearchByIP\<close> returns that error, wrapped, and
  no pods and no services: the matches \<open>pods\<close> and \<open>services\<close> collected in the
  namespaces searched earlier in the same call are not returned.
\<close>

theorem SearchByIP_error_discards_matches:
  assumes "K8sClient.Namespaces c = earlier @ namespace # later"
      and "SearchByIP_namespaces (Clientset c) ip earlier [] [] = Inr (pods, services)"
      and "\<not> IsPermissionError err"
  shows "(Pods_List (Clientset c) namespace 0 = Inl err
            \<longrightarrow> SearchByIP c ip
                  = Inl (Wrapf (''failed to list pods in namespace '' @ namespace) err))
       \<and> (Pods_List (Clientset c) namespace 0 = Inr podList
            \<and> Services_List (Clientset c) namespace 0 = Inl err
            \<longrightarrow> SearchByIP c ip
                  = Inl (Wrapf (''failed to list services in namespace '' @ namespace) err))"
  using assms
  by (simp add: SearchByIP_def SearchByIP_namespaces_append isPermissionError_def)

theorem SearchByIP_error_discards_matches_witness:
  "K8sClient.Namespaces (clientFor restrictedClient [''default'', ''broken'', ''svc-denied''])
     = [''default''] @ ''broken'' # [''svc-denied'']
   \<and> SearchByIP_namespaces (Clientset (clientFor restrictedClient [''default'', ''broken'', ''svc-denied'']))
        ''10.0.0.1'' [''default''] [] [] = Inr ([newPodInfo pod1], [])
   \<and> \<not> IsPermissionError (Failure ''context deadline exceeded'')
   \<and> \<not> IsPermissionError (StatusError (KnownReason ''InternalError'') 500)
   \<and> SearchByIP (clientFor restrictedClient [''default'', ''broken'', ''svc-denied'']) ''10.0.0.1''
       = Inl (Wrapf ''failed to list pods in namespace broken'' (Failure ''context deadline exceeded''))
   \<and> SearchByIP (clientFor restrictedClient [''default'', ''svc-broken'']) ''10.0.0.1''
       = Inl (Wrapf ''failed to list services in namespace svc-broken''
               (StatusError (KnownReason ''InternalError'') 500))"
proof -
  let ?c = "clientFor restrictedClient [''default'', ''broken'', ''svc-denied'']"
  let ?d = "clientFor restrictedClient [''default'', ''svc-broken'']"
  have n: "K8sClient.Namespaces ?c = [''default''] @ ''broken'' # [''svc-denied'']"
    by (simp add: clientFor_def)
  have n': "K8sClient.Namespaces ?d = [''default''] @ ''svc-broken'' # []"
    by (simp add: clientFor_def)
  have e: "SearchByIP_namespaces (Clientset ?c) ''10.0.0.1'' [''default''] [] [] = Inr ([newPodInfo pod1], [])"
    by (simp add: clientFor_def restrictedClient_def pod1_def)
  have e': "SearchByIP_namespaces (Clientset ?d) ''10.0.0.1'' [''default''] [] [] = Inr ([newPodInfo pod1], [])"
    by (simp add: clientFor_def restrictedClient_def pod1_def)
  have p: "\<not> IsPermissionError (Failure ''context deadline exceeded'')"
    by (simp add: IsPermissionError_def IsForbidden_def IsUnauthorized_def)
  have l: "Pods_List (Clientset ?c) ''broken'' 0 = Inl (Failure ''context deadline exceeded'')"
    by (simp add: clientFor_def restrictedClient_def)
  have p': "\<not> IsPermissionError (StatusError (KnownReason ''InternalError'') 500)"
    by (simp add: IsPermissionError_def IsForbidden_def IsUnauthorized_def)
  have l': "Pods_List (Clientset ?d) ''svc-broken'' 0 = Inr []
      \<and> Services_List (Clientset ?d) ''svc-broken'' 0
          = Inl (StatusError (KnownReason ''InternalError'') 500)"
    by (simp add: clientFor_def restrictedClient_def)
  from SearchByIP_error_discards_matches [OF n e p, of "[]"] l
       SearchByIP_error_discards_matches [OF n' e' p', of "[]"] l' n e p p'
  show ?thesis by simp
qed

text \<open>
  C2 (as amended). A permission error (forbidden or unauthorized, by reason or by code
  403 or 401 with a reason that is not a known one) is never surfaced by a per-scope
  search. When every list error in the searched namespaces is a permission error, the
  search returns, with a nil error, the matches of all the namespaces in order, where a
  namespace whose pod list is refused contributes neither pods nor services (its services
  are not listed), and a namespace whose service list is refused contributes its matching
  pods and no services. At the namespace where the permission error occurs, whatever the
  other namespaces do, the matches collected in the namespaces searched earlier are kept
  and the search goes on with the later namespaces.
\<close>

theorem permission_error_skips_namespace:
  "(K8sClient.Namespaces c = earlier @ namespace # later \<and> IsPermissionError err \<longrightarrow>
      (Pods_List (Clientset c) namespace 0 = Inl err
            \<and> SearchByIP_namespaces (Clientset c) ip earlier [] [] = Inr (pods, services)
          \<longrightarrow> SearchByIP c ip = SearchByIP_namespaces (Clientset c) ip later pods services)
       \<and> (Pods_List (Clientset c) namespace 0 = Inr podList
            \<and> Services_List (Clientset c) namespace 0 = Inl err
            \<and> SearchByIP_namespaces (Clientset c) ip earlier [] [] = Inr (pods, services)
          \<longrightarrow> SearchByIP c ip = SearchByIP_namespaces (Clientset c) ip later
                (pods @ map newPodInfo
                   (filter (\<lambda>pod. PodStatus.PodIP (Pod.Status pod) = ip
                                \<or> PodStatus.HostIP (Pod.Status pod) = ip) podList))
                services)
       \<and> (Pods_List (Clientset c) namespace 0 = Inl err
            \<and> SearchByName_namespaces (Clientset c) name earlier [] = Inr namedPods
          \<longrightarrow> SearchByName c name = SearchByName_namespaces (Clientset c) name later namedPods))
   \<and> ((\<forall>ns \<in> set (K8sClient.Namespaces c).
          (\<forall>e. Pods_List (Clientset c) ns 0 = Inl e \<longrightarrow> IsPermissionError e)
        \<and> (\<forall>listed e. Pods_List (Clientset c) ns 0 = Inr listed
                \<and> Services_List (Clientset c) ns 0 = Inl e \<longrightarrow> IsPermissionError e))
      \<longrightarrow> SearchByIP c ip =
            Inr (concat (map (\<lambda>ns.
                    case Pods_List (Clientset c) ns 0 of
                      Inl e \<Rightarrow> []
                    | Inr listed \<Rightarrow> map newPodInfo
                        (filter (\<lambda>pod. PodStatus.PodIP (Pod.Status pod) = ip
                                     \<or> PodStatus.HostIP (Pod.Status pod) = ip) listed))
                   (K8sClient.Namespaces c)),
                 concat (map (\<lambda>ns.
                    case Pods_List (Clientset c) ns 0 of
                      Inl e \<Rightarrow> []
                    | Inr listed \<Rightarrow>
                        (case Services_List (Clientset c) ns 0 of
                           Inl e \<Rightarrow> []
                         | Inr svcList \<Rightarrow> map newServiceInfo
                             (filter (\<lambda>svc. ServiceSpec.ClusterIP (Spec svc) = ip
                                \<or> ip \<in> set (ServiceSpec.ExternalIPs (Spec svc))
                                \<or> (ServiceSpec.Type (Spec svc) = ''LoadBalancer''
                                   \<and> ip \<in> IP ` set (Ingress (LoadBalancer (Service.Status svc)))))
                               svcList)))
                   (K8sClient.Namespaces c)))
        \<and> SearchByName c name =
            Inr (concat (map (\<lambda>ns.
                    case Pods_List (Clientset c) ns 0 of
                      Inl e \<Rightarrow> []
                    | Inr listed \<Rightarrow> map newPodInfo
                        (filter (\<lambda>pod. \<exists>before after. Pod.Name pod = before @ name @ after) listed))
                   (K8sClient.Namespaces c))))"
proof -
  have A: "K8sClient.Namespaces c = earlier @ namespace # later \<and> IsPermissionError err \<longrightarrow>
      (Pods_List (Clientset c) namespace 0 = Inl err
            \<and> SearchByIP_namespaces (Clientset c) ip earlier [] [] = Inr (pods, services)
          \<longrightarrow> SearchByIP c ip = SearchByIP_namespaces (Clientset c) ip later pods services)
       \<and> (Pods_List (Clientset c) namespace 0 = Inr podList
            \<and> Services_List (Clientset c) namespace 0 = Inl err
            \<and> SearchByIP_namespaces (Clientset c) ip earlier [] [] = Inr (pods, services)
          \<longrightarrow> SearchByIP c ip = SearchByIP_namespaces (Clientset c) ip later
                (pods @ map newPodInfo
                   (filter (\<lambda>pod. PodStatus.PodIP (Pod.Status pod) = ip
                                \<or> PodStatus.HostIP (Pod.Status pod) = ip) podList))
                services)
       \<and> (Pods_List (Clientset c) namespace 0 = Inl err
            \<and> SearchByName_namespaces (Clientset c) name earlier [] = Inr namedPods
          \<longrightarrow> SearchByName c name = SearchByName_namespaces (Clientset c) name later namedPods)"
    by (simp add: SearchByIP_def SearchByName_def SearchByIP_namespaces_append
          SearchByName_namespaces_append isPermissionError_def SearchByIP_pods_eq)
  have B: "(\<forall>ns \<in> set (K8sClient.Namespaces c).
          (\<forall>e. Pods_List (Clientset c) ns 0 = Inl e \<longrightarrow> IsPermissionError e)
        \<and> (\<forall>listed e. Pods_List (Clientset c) ns 0 = Inr listed
                \<and> Services_List (Clientset c) ns 0 = Inl e \<longrightarrow> IsPermissionError e))
      \<longrightarrow> SearchByIP c ip =
            Inr (concat (map (\<lambda>ns.
                    case Pods_List (Clientset c) ns 0 of
                      Inl e \<Rightarrow> []
                    | Inr listed \<Rightarrow> map newPodInfo
                        (filter (\<lambda>pod. PodStatus.PodIP (Pod.Status pod) = ip
                                     \<or> PodStatus.HostIP (Pod.Status pod) = ip) listed))
                   (K8sClient.Namespaces c)),
                 concat (map (\<lambda>ns.
                    case Pods_List (Clientset c) ns 0 of
                      Inl e \<Rightarrow> []
                    | Inr listed \<Rightarrow>
                        (case Services_List (Clientset c) ns 0 of
                           Inl e \<Rightarrow> []
                         | Inr svcList \<Rightarrow> map newServiceInfo
                             (filter (\<lambda>svc. ServiceSpec.ClusterIP (Spec svc) = ip
                                \<or> ip \<in> set (ServiceSpec.ExternalIPs (Spec svc))
                                \<or> (ServiceSpec.Type (Spec svc) = ''LoadBalancer''
                                   \<and> ip \<in> IP ` set (Ingress (LoadBalancer (Service.Status svc)))))
                               svcList)))
                   (K8sClient.Namespaces c)))
        \<and> SearchByName c name =
            Inr (concat (map (\<lambda>ns.
                    case Pods_List (Clientset c) ns 0 of
                      Inl e \<Rightarrow> []
                    | Inr listed \<Rightarrow> map newPodInfo
                        (filter (\<lambda>pod. \<exists>before after. Pod.Name pod = before @ name @ after) listed))
                   (K8sClient.Namespaces c)))"
  proof (intro impI conjI)
  assume a: "\<forall>ns \<in> set (K8sClient.Namespaces c).
          (\<forall>e. Pods_List (Clientset c) ns 0 = Inl e \<longrightarrow> IsPermissionError e)
        \<and> (\<forall>listed e. Pods_List (Clientset c) ns 0 = Inr listed
                \<and> Services_List (Clientset c) ns 0 = Inl e \<longrightarrow> IsPermissionError e)"
  have m: "serviceMatched ip = (\<lambda>svc. ServiceSpec.ClusterIP (Spec svc) = ip
                          \<or> ip \<in> set (ServiceSpec.ExternalIPs (Spec svc))
                          \<or> (ServiceSpec.Type (Spec svc) = ''LoadBalancer''
                             \<and> ip \<in> IP ` set (Ingress (LoadBalancer (Service.Status svc)))))"
    by (rule ext) (rule serviceMatched_iff)
  show "SearchByIP c ip =
            Inr (concat (map (\<lambda>ns.
                    case Pods_List (Clientset c) ns 0 of
                      Inl e \<Rightarrow> []
                    | Inr listed \<Rightarrow> map newPodInfo
                        (filter (\<lambda>pod. PodStatus.PodIP (Pod.Status pod) = ip
                                     \<or> PodStatus.HostIP (Pod.Status pod) = ip) listed))
                   (K8sClient.Namespaces c)),
                 concat (map (\<lambda>ns.
                    case Pods_List (Clientset c) ns 0 of
                      Inl e \<Rightarrow> []
                    | Inr listed \<Rightarrow>
                        (case Services_List (Clientset c) ns 0 of
                           Inl e \<Rightarrow> []
                         | Inr svcList \<Rightarrow> map newServiceInfo
                             (filter (\<lambda>svc. ServiceSpec.ClusterIP (Spec svc) = ip
                                \<or> ip \<in> set (ServiceSpec.ExternalIPs (Spec svc))
                                \<or> (ServiceSpec.Type (Spec svc) = ''LoadBalancer''
                                   \<and> ip \<in> IP ` set (Ingress (LoadBalancer (Service.Status svc)))))
                               svcList)))
                   (K8sClient.Namespaces c)))"
    unfolding SearchByIP_def
    using SearchByIP_namespaces_permission_only [OF a, of ip "[]" "[]"]
    by (simp only: m append_Nil)
  from a have a': "\<forall>ns \<in> set (K8sClient.Namespaces c).
      \<forall>e. Pods_List (Clientset c) ns 0 = Inl e \<longrightarrow> IsPermissionError e"
    by blast
  show "SearchByName c name =
            Inr (concat (map (\<lambda>ns.
                    case Pods_List (Clientset c) ns 0 of
                      Inl e \<Rightarrow> []
                    | Inr listed \<Rightarrow> map newPodInfo
                        (filter (\<lambda>pod. \<exists>before after. Pod.Name pod = before @ name @ after) listed))
                   (K8sClient.Namespaces c)))"
    unfolding SearchByName_def
    using SearchByName_namespaces_permission_only [OF a', of name "[]"]
    by (simp only: strings_Contains_iff append_Nil)
  qed
  show ?thesis by (rule conjI [OF A B])
qed

theorem permission_error_skips_namespace_witness:
  "IsPermissionError (StatusError Forbidden 403) \<and> IsPermissionError (StatusError Unauthorized 401)
   \<and> IsPermissionError (StatusError (UnknownReason ''QuotaExceeded'') 403)
   \<and> Pods_List restrictedClient ''kube-system'' 0 = Inl (StatusError Forbidden 403)
   \<and> Services_List restrictedClient ''kube-system'' 0 = Inr [testSvc]
   \<and> SearchByIP (clientFor restrictedClient [''shared'', ''kube-system'', ''shared'']) ''10.96.0.1''
       = Inr ([], [newServiceInfo testSvc, newServiceInfo testSvc])
   \<and> SearchByName (clientFor restrictedClient [''shared'', ''kube-system'', ''shared'']) ''test''
       = Inr [newPodInfo pod1, newPodInfo pod1]
   \<and> Services_List restrictedClient ''svc-denied'' 0 = Inl (StatusError Unauthorized 401)
   \<and> SearchByIP (clientFor restrictedClient [''shared'', ''svc-denied'', ''shared'']) ''10.0.0.1''
       = Inr ([newPodInfo pod1, newPodInfo pod1, newPodInfo pod1], [])
   \<and> Pods_List restrictedClient ''quota'' 0 = Inl (StatusError (UnknownReason ''QuotaExceeded'') 403)
   \<and> SearchByIP (clientFor restrictedClient [''shared'', ''kube-system'', ''svc-denied'', ''quota'', ''shared''])
        ''10.96.0.1''
       = Inr ([], [newServiceInfo testSvc, newServiceInfo testSvc])
   \<and> SearchByName (clientFor restrictedClient [''shared'', ''kube-system'', ''svc-denied'', ''quota'', ''shared''])
        ''pod-''
       = Inr [newPodInfo pod1, newPodInfo pod1, newPodInfo pod1]"
proof -
  let ?k = "clientFor restrictedClient [''shared'', ''kube-system'', ''shared'']"
  let ?s = "clientFor restrictedClient [''shared'', ''svc-denied'', ''shared'']"
  let ?a = "clientFor restrictedClient [''shared'', ''kube-system'', ''svc-denied'', ''quota'', ''shared'']"
  have f: "IsPermissionError (StatusError Forbidden 403)"
    and u: "IsPermissionError (StatusError Unauthorized 401)"
    and q: "IsPermissionError (StatusError (UnknownReason ''QuotaExceeded'') 403)"
    by (simp_all add: IsPermissionError_def IsForbidden_def IsUnauthorized_def)
  have pk: "Pods_List restrictedClient ''kube-system'' 0 = Inl (StatusError Forbidden 403)"
    and sk: "Services_List restrictedClient ''kube-system'' 0 = Inr [testSvc]"
    and ps: "Pods_List restrictedClient ''svc-denied'' 0 = Inr [pod1]"
    and ss: "Services_List restrictedClient ''svc-denied'' 0 = Inl (StatusError Unauthorized 401)"
    and pq: "Pods_List restrictedClient ''quota'' 0 = Inl (StatusError (UnknownReason ''QuotaExceeded'') 403)"
    and psh: "Pods_List restrictedClient ''shared'' 0 = Inr [pod1]"
    and ssh: "Services_List restrictedClient ''shared'' 0 = Inr [testSvc]"
    by (simp_all add: restrictedClient_def)
  have ck: "Clientset ?k = restrictedClient" and cs: "Clientset ?s = restrictedClient"
    and ca: "Clientset ?a = restrictedClient"
    by (simp_all add: clientFor_def)
  have hk: "K8sClient.Namespaces ?k = [''shared''] @ ''kube-system'' # [''shared'']
      \<and> IsPermissionError (StatusError Forbidden 403)"
    using f by (simp add: clientFor_def)
  have hs: "K8sClient.Namespaces ?s = [''shared''] @ ''svc-denied'' # [''shared'']
      \<and> IsPermissionError (StatusError Unauthorized 401)"
    using u by (simp add: clientFor_def)
  have e1: "SearchByIP_namespaces restrictedClient ''10.96.0.1'' [''shared''] [] []
      = Inr ([], [newServiceInfo testSvc])"
    by (simp add: psh ssh pod1_def testSvc_def serviceMatched_def ServiceTypeLoadBalancer_def)
  have e1': "SearchByIP_namespaces restrictedClient ''10.96.0.1'' [''shared''] [] [newServiceInfo testSvc]
      = Inr ([], [newServiceInfo testSvc, newServiceInfo testSvc])"
    by (simp add: psh ssh pod1_def testSvc_def serviceMatched_def ServiceTypeLoadBalancer_def)
  have e2: "SearchByName_namespaces restrictedClient ''test'' [''shared''] [] = Inr [newPodInfo pod1]"
    by (simp add: psh pod1_def)
  have e2': "SearchByName_namespaces restrictedClient ''test'' [''shared''] [newPodInfo pod1]
      = Inr [newPodInfo pod1, newPodInfo pod1]"
    by (simp add: psh pod1_def)
  have e3: "SearchByIP_namespaces restrictedClient ''10.0.0.1'' [''shared''] [] []
      = Inr ([newPodInfo pod1], [])"
    by (simp add: psh ssh pod1_def testSvc_def serviceMatched_def ServiceTypeLoadBalancer_def)
  have e3': "SearchByIP_namespaces restrictedClient ''10.0.0.1'' [''shared'']
        ([newPodInfo pod1] @ map newPodInfo
                   (filter (\<lambda>pod. PodStatus.PodIP (Pod.Status pod) = ''10.0.0.1''
                                \<or> PodStatus.HostIP (Pod.Status pod) = ''10.0.0.1'') [pod1])) []
      = Inr ([newPodInfo pod1, newPodInfo pod1, newPodInfo pod1], [])"
    by (simp add: psh ssh pod1_def testSvc_def serviceMatched_def ServiceTypeLoadBalancer_def)
  note t = permission_error_skips_namespace [of ?k "[''shared'']" "''kube-system''" "[''shared'']"
      "StatusError Forbidden 403" "''10.96.0.1''" "[]" "[newServiceInfo testSvc]" "[]" "''test''"
      "[newPodInfo pod1]", THEN conjunct1, THEN mp, OF hk, unfolded ck]
  have r1: "SearchByIP ?k ''10.96.0.1'' = Inr ([], [newServiceInfo testSvc, newServiceInfo testSvc])"
    using t [THEN conjunct1] pk e1 e1' by simp
  have r2: "SearchByName ?k ''test'' = Inr [newPodInfo pod1, newPodInfo pod1]"
    using t [THEN conjunct2, THEN conjunct2] pk e2 e2' by simp
  note t' = permission_error_skips_namespace [of ?s "[''shared'']" "''svc-denied''" "[''shared'']"
      "StatusError Unauthorized 401" "''10.0.0.1''" "[newPodInfo pod1]" "[]" "[pod1]" "''test''"
      "[]", THEN conjunct1, THEN mp, OF hs, unfolded cs]
  have r3: "SearchByIP ?s ''10.0.0.1'' = Inr ([newPodInfo pod1, newPodInfo pod1, newPodInfo pod1], [])"
    using t' [THEN conjunct2, THEN conjunct1] ps ss e3 e3' by simp
  have ha: "\<forall>ns \<in> set (K8sClient.Namespaces ?a).
          (\<forall>e. Pods_List (Clientset ?a) ns 0 = Inl e \<longrightarrow> IsPermissionError e)
        \<and> (\<forall>listed e. Pods_List (Clientset ?a) ns 0 = Inr listed
                \<and> Services_List (Clientset ?a) ns 0 = Inl e \<longrightarrow> IsPermissionError e)"
    unfolding ca using f u q by (simp add: clientFor_def pk sk ps ss pq psh ssh)
  note g = permission_error_skips_namespace [of ?a _ _ _ _ "''10.96.0.1''" _ _ _ "''pod-''",
      THEN conjunct2, THEN mp, OF ha, unfolded ca strings_Contains_iff [symmetric]]
  have ns: "K8sClient.Namespaces ?a = [''shared'', ''kube-system'', ''svc-denied'', ''quota'', ''shared'']"
    by (simp add: clientFor_def)
  have r4: "SearchByIP ?a ''10.96.0.1'' = Inr ([], [newServiceInfo testSvc, newServiceInfo testSvc])"
    using g [THEN conjunct1]
    by (simp add: ns pk sk ps ss pq psh ssh pod1_def testSvc_def)
  have r5: "SearchByName ?a ''pod-'' = Inr [newPodInfo pod1, newPodInfo pod1, newPodInfo pod1]"
    using g [THEN conjunct2]
    by (simp add: ns pk sk ps ss pq psh ssh pod1_def)
  from f u q pk sk ss pq r1 r2 r3 r4 r5 show ?thesis by simp
qed

text \<open>
  C2 as written, that the other resource kind of the same scope is still returned, fails
  for the pod list call: in \<open>kube-system\<close> of the restricted cluster the pod list is
  forbidden, the service list is allowed and holds a service with the cluster IP that is
  searched for, and \<open>SearchByIP\<close> returns no service.
\<close>

theorem permission_error_on_pods_hides_services:
  "Pods_List restrictedClient ''kube-system'' 0 = Inl (StatusError Forbidden 403)
   \<and> IsPermissionError (StatusError Forbidden 403)
   \<and> Services_List restrictedClient ''kube-system'' 0 = Inr [testSvc]
   \<and> serviceMatched ''10.96.0.1'' testSvc
   \<and> SearchByIP (clientFor restrictedClient [''kube-system'']) ''10.96.0.1'' = Inr ([], [])"
  by (simp add: restrictedClient_def IsPermissionError_def IsForbidden_def IsUnauthorized_def isPermissionError_def serviceMatched_def
        testSvc_def SearchByIP_def clientFor_def)

section \<open>Owner resolution\<close>

text \<open>
  C7. \<open>GetDeploymentByReplicaSet\<close> fails with the wrapped error of the get call when
  the ReplicaSet cannot be fetched (an absent ReplicaSet is the NotFound answer); fails with
  "replicaset has no owner" when the ReplicaSet has no owner reference; returns the name of
  the first owner reference whose kind is "Deployment" when there is one; and fails with
  "no deployment found for replicaset" when there are owner references and none has that
  kind.
\<close>

theorem GetDeploymentByReplicaSet_contract:
  "(ReplicaSets_Get (Clientset c) namespace replicaSetName = Inl err
      \<longrightarrow> GetDeploymentByReplicaSet c namespace replicaSetName
            = Inl (Wrapf ''failed to get replicaset'' err))
   \<and> (ReplicaSets_Get (Clientset c) namespace replicaSetName = Inr rs
        \<and> ReplicaSet.OwnerReferences rs = []
      \<longrightarrow> GetDeploymentByReplicaSet c namespace replicaSetName
            = Inl (Errorf ''replicaset has no owner''))
   \<and> (ReplicaSets_Get (Clientset c) namespace replicaSetName = Inr rs
        \<and> ReplicaSet.OwnerReferences rs = before @ owner # after
        \<and> (\<forall>other \<in> set before. OwnerReference.Kind other \<noteq> ''Deployment'')
        \<and> OwnerReference.Kind owner = ''Deployment''
      \<longrightarrow> GetDeploymentByReplicaSet c namespace replicaSetName = Inr (OwnerReference.Name owner))
   \<and> (ReplicaSets_Get (Clientset c) namespace replicaSetName = Inr rs
        \<and> ReplicaSet.OwnerReferences rs \<noteq> []
        \<and> (\<forall>other \<in> set (ReplicaSet.OwnerReferences rs). OwnerReference.Kind other \<noteq> ''Deployment'')
      \<longrightarrow> GetDeploymentByReplicaSet c namespace replicaSetName
            = Inl (Errorf ''no deployment found for replicaset''))"
  by (auto simp: GetDeploymentByReplicaSet_def GetDeploymentByReplicaSet_owners_first
        GetDeploymentByReplicaSet_owners_none)

theorem GetDeploymentByReplicaSet_contract_witness:
  "GetDeploymentByReplicaSet (clientFor fakeClient []) ''default'' ''missing-rs''
     = Inl (Wrapf ''failed to get replicaset'' (StatusError NotFound 404))
   \<and> GetDeploymentByReplicaSet (clientFor fakeClient []) ''default'' ''orphan-rs''
     = Inl (Errorf ''replicaset has no owner'')
   \<and> GetDeploymentByReplicaSet (clientFor fakeClient []) ''default'' ''test-rs-1'' = Inr ''dep-A''
   \<and> GetDeploymentByReplicaSet (clientFor fakeClient []) ''default'' ''job-rs''
     = Inl (Errorf ''no deployment found for replicaset'')"
  using GetDeploymentByReplicaSet_contract [of "clientFor fakeClient []" "''default''" "''missing-rs''"
          "StatusError NotFound 404"]
        GetDeploymentByReplicaSet_contract [of "clientFor fakeClient []" "''default''" "''orphan-rs''"
          _ "replicaSetOwnedBy ''orphan-rs'' []"]
        GetDeploymentByReplicaSet_contract [of "clientFor fakeClient []" "''default''" "''test-rs-1''"
          _ "replicaSetOwnedBy ''test-rs-1''
                [\<lparr>Kind = ''Job'', OwnerReference.Name = ''job-A''\<rparr>,
                 \<lparr>Kind = ''Deployment'', OwnerReference.Name = ''dep-A''\<rparr>,
                 \<lparr>Kind = ''Deployment'', OwnerReference.Name = ''dep-B''\<rparr>]"
          "[\<lparr>Kind = ''Job'', OwnerReference.Name = ''job-A''\<rparr>]"
          "\<lparr>Kind = ''Deployment'', OwnerReference.Name = ''dep-A''\<rparr>"
          "[\<lparr>Kind = ''Deployment'', OwnerReference.Name = ''dep-B''\<rparr>]"]
        GetDeploymentByReplicaSet_contract [of "clientFor fakeClient []" "''default''" "''job-rs''"
          _ "replicaSetOwnedBy ''job-rs'' [\<lparr>Kind = ''Job'', OwnerReference.Name = ''job-A''\<rparr>]"]
  by (simp add: clientFor_def fakeClient_def replicaSetOwnedBy_def)

section \<open>Aggregation\<close>

text \<open>
  C4. Fan-out failure isolation. When the kubeconfig loads, both aggregate searches return,
  with a nil error, the merged list of what every context contributes, in the order of
  the contexts: a context whose client cannot be built, or whose namespaces cannot be
  listed when no namespace is given, contributes nothing, and the contexts before it and
  after it contribute what their own scopes yield. No context aborts the search.
\<close>

theorem failed_context_is_skipped:
  "(LoadKubeConfig w kubeconfigPath = Inr config \<longrightarrow>
        SearchByIPAllContexts w kubeconfigPath ip namespaces
          = Inr (concat (map (contextResultsIP w kubeconfigPath ip namespaces) (GetContexts config)))
      \<and> SearchByNameAllContexts w kubeconfigPath name namespaces
          = Inr (concat (map (contextResultsName w kubeconfigPath name namespaces) (GetContexts config))))
   \<and> (LoadKubeConfig w kubeconfigPath = Inr config
        \<and> GetContexts config = before @ contextName # after
        \<and> (NewK8sClient w kubeconfigPath contextName [] = Inl err
            \<or> (\<exists>client. NewK8sClient w kubeconfigPath contextName [] = Inr client
                  \<and> namespaces = [] \<and> Namespaces_List (Clientset client) 0 = Inl err))
      \<longrightarrow> SearchByIPAllContexts w kubeconfigPath ip namespaces
            = Inr (concat (map (contextResultsIP w kubeconfigPath ip namespaces) before)
                   @ concat (map (contextResultsIP w kubeconfigPath ip namespaces) after))
        \<and> SearchByNameAllContexts w kubeconfigPath name namespaces
            = Inr (concat (map (contextResultsName w kubeconfigPath name namespaces) before)
                   @ concat (map (contextResultsName w kubeconfigPath name namespaces) after)))"
proof (intro conjI impI)
  assume l: "LoadKubeConfig w kubeconfigPath = Inr config"
  show "SearchByIPAllContexts w kubeconfigPath ip namespaces
          = Inr (concat (map (contextResultsIP w kubeconfigPath ip namespaces) (GetContexts config)))"
    by (rule SearchByIPAllContexts_merged [OF l])
  show "SearchByNameAllContexts w kubeconfigPath name namespaces
          = Inr (concat (map (contextResultsName w kubeconfigPath name namespaces) (GetContexts config)))"
    by (rule SearchByNameAllContexts_merged [OF l])
next
  assume a: "LoadKubeConfig w kubeconfigPath = Inr config
        \<and> GetContexts config = before @ contextName # after
        \<and> (NewK8sClient w kubeconfigPath contextName [] = Inl err
            \<or> (\<exists>client. NewK8sClient w kubeconfigPath contextName [] = Inr client
                  \<and> namespaces = [] \<and> Namespaces_List (Clientset client) 0 = Inl err))"
  then have l: "LoadKubeConfig w kubeconfigPath = Inr config"
    and g: "GetContexts config = before @ contextName # after" by simp_all
  from a have i: "contextResultsIP w kubeconfigPath ip namespaces contextName = []"
    by (auto simp: contextResultsIP_def)
  from a have n: "contextResultsName w kubeconfigPath name namespaces contextName = []"
    by (auto simp: contextResultsName_def)
  show "SearchByIPAllContexts w kubeconfigPath ip namespaces
            = Inr (concat (map (contextResultsIP w kubeconfigPath ip namespaces) before)
                   @ concat (map (contextResultsIP w kubeconfigPath ip namespaces) after))"
    unfolding SearchByIPAllContexts_merged [OF l] g by (simp add: i)
  show "SearchByNameAllContexts w kubeconfigPath name namespaces
            = Inr (concat (map (contextResultsName w kubeconfigPath name namespaces) before)
                   @ concat (map (contextResultsName w kubeconfigPath name namespaces) after))"
    unfolding SearchByNameAllContexts_merged [OF l] g by (simp add: n)
qed

theorem failed_context_is_skipped_witness:
  "NewK8sClient testWorld ''/kube/config'' ''context-2'' []
     = Inl (Wrapf ''failed to create rest config'' (Failure ''invalid configuration''))
   \<and> SearchByIPAllContexts testWorld ''/kube/config'' ''10.0.0.1'' [''default'']
     = Inr [\<lparr>SearchResultWithContext.Context = ''context-1'',
             SearchResultWithContext.Namespace = ''default'',
             SearchResultWithContext.Pods = [newPodInfo pod1], Services = []\<rparr>,
            \<lparr>SearchResultWithContext.Context = ''context-3'',
             SearchResultWithContext.Namespace = ''default'',
             SearchResultWithContext.Pods = [newPodInfo pod1], Services = []\<rparr>]
   \<and> SearchByNameAllContexts testWorld ''/kube/config'' ''redis'' [''default'']
     = Inr [\<lparr>PodResultWithContext.Context = ''context-1'',
             PodResultWithContext.Namespace = ''default'',
             PodResultWithContext.Pods = [newPodInfo redisPod]\<rparr>]
   \<and> Namespaces_List noListClient 0 = Inl (StatusError Forbidden 403)
   \<and> SearchByIPAllContexts testWorld ''/kube/nolist'' ''10.0.0.1'' []
     = Inr [\<lparr>SearchResultWithContext.Context = ''context-1'',
             SearchResultWithContext.Namespace = ''default'',
             SearchResultWithContext.Pods = [newPodInfo pod1], Services = []\<rparr>]
   \<and> SearchByNameAllContexts testWorld ''/kube/nolist'' ''redis'' []
     = Inr [\<lparr>PodResultWithContext.Context = ''context-1'',
             PodResultWithContext.Namespace = ''default'',
             PodResultWithContext.Pods = [newPodInfo redisPod]\<rparr>]"
proof -
  let ?cfg = "\<lparr>Contexts = [''context-1'', ''context-2'', ''context-3''], CurrentContext = ''context-1''\<rparr>"
  let ?cfgn = "\<lparr>Contexts = [''context-n'', ''context-1''], CurrentContext = ''context-n''\<rparr>"
  have h1: "LoadKubeConfig testWorld ''/kube/config'' = Inr ?cfg
        \<and> GetContexts ?cfg = [''context-1''] @ ''context-2'' # [''context-3'']
        \<and> (NewK8sClient testWorld ''/kube/config'' ''context-2'' []
              = Inl (Wrapf ''failed to create rest config'' (Failure ''invalid configuration''))
            \<or> (\<exists>client. NewK8sClient testWorld ''/kube/config'' ''context-2'' [] = Inr client
                  \<and> [''default''] = []
                  \<and> Namespaces_List (Clientset client) 0
                      = Inl (Wrapf ''failed to create rest config'' (Failure ''invalid configuration''))))"
    by (simp add: testWorld_config testWorld_clients GetContexts_def)
  have nl: "Namespaces_List noListClient 0 = Inl (StatusError Forbidden 403)"
    by (simp add: noListClient_def)
  have h2: "LoadKubeConfig testWorld ''/kube/nolist'' = Inr ?cfgn
        \<and> GetContexts ?cfgn = [] @ ''context-n'' # [''context-1'']
        \<and> (NewK8sClient testWorld ''/kube/nolist'' ''context-n'' [] = Inl (StatusError Forbidden 403)
            \<or> (\<exists>client. NewK8sClient testWorld ''/kube/nolist'' ''context-n'' [] = Inr client
                  \<and> ([]::string list) = []
                  \<and> Namespaces_List (Clientset client) 0 = Inl (StatusError Forbidden 403)))"
    by (simp add: testWorld_nolist_config testWorld_nolist_clients GetContexts_def nl)
  note t1 = failed_context_is_skipped [of testWorld "''/kube/config''" ?cfg "''10.0.0.1''"
      "[''default'']" "''redis''" "[''context-1'']" "''context-2''" "[''context-3'']"
      "Wrapf ''failed to create rest config'' (Failure ''invalid configuration'')",
      THEN conjunct2, THEN mp, OF h1]
  note t2 = failed_context_is_skipped [of testWorld "''/kube/nolist''" ?cfgn "''10.0.0.1''"
      "[]" "''redis''" "[]" "''context-n''" "[''context-1'']" "StatusError Forbidden 403",
      THEN conjunct2, THEN mp, OF h2]
  have i1: "contextResultsIP testWorld ''/kube/config'' ''10.0.0.1'' [''default''] ''context-1''
      = [\<lparr>SearchResultWithContext.Context = ''context-1'',
             SearchResultWithContext.Namespace = ''default'',
             SearchResultWithContext.Pods = [newPodInfo pod1], Services = []\<rparr>]"
    by (simp add: contextResultsIP_def scopedResultIP_def testWorld_clients SearchByIP_def
          fakeClient_def pod1_def redisPod_def serviceMatched_def testSvc_def lbSvc_def
          staleSvc_def ServiceTypeLoadBalancer_def)
  have i3: "contextResultsIP testWorld ''/kube/config'' ''10.0.0.1'' [''default''] ''context-3''
      = [\<lparr>SearchResultWithContext.Context = ''context-3'',
             SearchResultWithContext.Namespace = ''default'',
             SearchResultWithContext.Pods = [newPodInfo pod1], Services = []\<rparr>]"
    by (simp add: contextResultsIP_def scopedResultIP_def testWorld_clients SearchByIP_def
          restrictedClient_def pod1_def)
  have n1: "contextResultsName testWorld ''/kube/config'' ''redis'' [''default''] ''context-1''
      = [\<lparr>PodResultWithContext.Context = ''context-1'',
             PodResultWithContext.Namespace = ''default'',
             PodResultWithContext.Pods = [newPodInfo redisPod]\<rparr>]"
    by (simp add: contextResultsName_def scopedResultName_def testWorld_clients SearchByName_def
          fakeClient_def pod1_def redisPod_def)
  have n3: "contextResultsName testWorld ''/kube/config'' ''redis'' [''default''] ''context-3'' = []"
    by (simp add: contextResultsName_def scopedResultName_def testWorld_clients SearchByName_def
          restrictedClient_def pod1_def)
  have j1: "contextResultsIP testWorld ''/kube/nolist'' ''10.0.0.1'' [] ''context-1''
      = [\<lparr>SearchResultWithContext.Context = ''context-1'',
             SearchResultWithContext.Namespace = ''default'',
             SearchResultWithContext.Pods = [newPodInfo pod1], Services = []\<rparr>]"
    by (simp add: contextResultsIP_def scopedResultIP_def testWorld_nolist_clients SearchByIP_def
          fakeClient_def pod1_def pod2_def redisPod_def serviceMatched_def testSvc_def lbSvc_def
          staleSvc_def ServiceTypeLoadBalancer_def)
  have m1: "contextResultsName testWorld ''/kube/nolist'' ''redis'' [] ''context-1''
      = [\<lparr>PodResultWithContext.Context = ''context-1'',
             PodResultWithContext.Namespace = ''default'',
             PodResultWithContext.Pods = [newPodInfo redisPod]\<rparr>]"
    by (simp add: contextResultsName_def scopedResultName_def testWorld_nolist_clients SearchByName_def
          fakeClient_def pod1_def pod2_def redisPod_def)
  from t1 t2 testWorld_clients(3) nl i1 i3 n1 n3 j1 m1 show ?thesis by simp
qed

text \<open>
  C6. Empty-scope dropping. Every entry of an aggregate result holds at least one pod or
  at least one service (at least one pod, for the search by name), and is what the
  per-scope search of its own context and namespace returns. Hence a scope whose search
  returns no pod and no service has no entry in the result.
\<close>

theorem empty_scopes_are_dropped:
  "(SearchByIPAllContexts w kubeconfigPath ip namespaces = Inr results \<longrightarrow>
      (\<forall>r \<in> set results.
          (0 < length (SearchResultWithContext.Pods r) \<or> 0 < length (Services r))
        \<and> (\<exists>client. NewK8sClient w kubeconfigPath (SearchResultWithContext.Context r) [] = Inr client
              \<and> SearchByIP (client\<lparr>K8sClient.Namespaces := [SearchResultWithContext.Namespace r]\<rparr>) ip
                  = Inr (SearchResultWithContext.Pods r, Services r)))
    \<and> (\<forall>contextName nsName client.
          NewK8sClient w kubeconfigPath contextName [] = Inr client
        \<and> SearchByIP (client\<lparr>K8sClient.Namespaces := [nsName]\<rparr>) ip = Inr ([], [])
        \<longrightarrow> \<not> (\<exists>r \<in> set results. SearchResultWithContext.Context r = contextName
                  \<and> SearchResultWithContext.Namespace r = nsName)))
   \<and> (SearchByNameAllContexts w kubeconfigPath name namespaces = Inr podResults \<longrightarrow>
      (\<forall>r \<in> set podResults.
          0 < length (PodResultWithContext.Pods r)
        \<and> (\<exists>client. NewK8sClient w kubeconfigPath (PodResultWithContext.Context r) [] = Inr client
              \<and> SearchByName (client\<lparr>K8sClient.Namespaces := [PodResultWithContext.Namespace r]\<rparr>) name
                  = Inr (PodResultWithContext.Pods r)))
    \<and> (\<forall>contextName nsName client.
          NewK8sClient w kubeconfigPath contextName [] = Inr client
        \<and> SearchByName (client\<lparr>K8sClient.Namespaces := [nsName]\<rparr>) name = Inr []
        \<longrightarrow> \<not> (\<exists>r \<in> set podResults. PodResultWithContext.Context r = contextName
                  \<and> PodResultWithContext.Namespace r = nsName)))"
proof (intro conjI impI)
  assume a: "SearchByIPAllContexts w kubeconfigPath ip namespaces = Inr results"
  then obtain config where
      res: "results = SearchByIPAllContexts_contexts w kubeconfigPath ip namespaces (GetContexts config) []"
    by (auto simp: SearchByIPAllContexts_def split: sum.splits)
  show 1: "\<forall>r \<in> set results.
          (0 < length (SearchResultWithContext.Pods r) \<or> 0 < length (Services r))
        \<and> (\<exists>client. NewK8sClient w kubeconfigPath (SearchResultWithContext.Context r) [] = Inr client
              \<and> SearchByIP (client\<lparr>K8sClient.Namespaces := [SearchResultWithContext.Namespace r]\<rparr>) ip
                  = Inr (SearchResultWithContext.Pods r, Services r))"
  proof
    fix r assume "r \<in> set results"
    with res have "r \<in> set (SearchByIPAllContexts_contexts w kubeconfigPath ip namespaces (GetContexts config) [])"
      by simp
    from SearchByIPAllContexts_contexts_member [OF this]
    show "(0 < length (SearchResultWithContext.Pods r) \<or> 0 < length (Services r))
        \<and> (\<exists>client. NewK8sClient w kubeconfigPath (SearchResultWithContext.Context r) [] = Inr client
              \<and> SearchByIP (client\<lparr>K8sClient.Namespaces := [SearchResultWithContext.Namespace r]\<rparr>) ip
                  = Inr (SearchResultWithContext.Pods r, Services r))"
      by blast
  qed
  show "\<forall>contextName nsName client.
          NewK8sClient w kubeconfigPath contextName [] = Inr client
        \<and> SearchByIP (client\<lparr>K8sClient.Namespaces := [nsName]\<rparr>) ip = Inr ([], [])
        \<longrightarrow> \<not> (\<exists>r \<in> set results. SearchResultWithContext.Context r = contextName
                  \<and> SearchResultWithContext.Namespace r = nsName)"
    using 1 by fastforce
next
  assume a: "SearchByNameAllContexts w kubeconfigPath name namespaces = Inr podResults"
  then obtain config where
      res: "podResults = SearchByNameAllContexts_contexts w kubeconfigPath name namespaces (GetContexts config) []"
    by (auto simp: SearchByNameAllContexts_def split: sum.splits)
  show 1: "\<forall>r \<in> set podResults.
          0 < length (PodResultWithContext.Pods r)
        \<and> (\<exists>client. NewK8sClient w kubeconfigPath (PodResultWithContext.Context r) [] = Inr client
              \<and> SearchByName (client\<lparr>K8sClient.Namespaces := [PodResultWithContext.Namespace r]\<rparr>) name
                  = Inr (PodResultWithContext.Pods r))"
  proof
    fix r assume "r \<in> set podResults"
    with res have "r \<in> set (SearchByNameAllContexts_contexts w kubeconfigPath name namespaces (GetContexts config) [])"
      by simp
    from SearchByNameAllContexts_contexts_member [OF this]
    show "0 < length (PodResultWithContext.Pods r)
        \<and> (\<exists>client. NewK8sClient w kubeconfigPath (PodResultWithContext.Context r) [] = Inr client
              \<and> SearchByName (client\<lparr>K8sClient.Namespaces := [PodResultWithContext.Namespace r]\<rparr>) name
                  = Inr (PodResultWithContext.Pods r))"
      by blast
  qed
  show "\<forall>contextName nsName client.
          NewK8sClient w kubeconfigPath contextName [] = Inr client
        \<and> SearchByName (client\<lparr>K8sClient.Namespaces := [nsName]\<rparr>) name = Inr []
        \<longrightarrow> \<not> (\<exists>r \<in> set podResults. PodResultWithContext.Context r = contextName
                  \<and> PodResultWithContext.Namespace r = nsName)"
    using 1 by fastforce
qed

theorem empty_scopes_are_dropped_witness:
  "SearchByIPAllContexts testWorld ''/kube/config'' ''10.96.0.1'' []
     = Inr [\<lparr>SearchResultWithContext.Context = ''context-1'',
             SearchResultWithContext.Namespace = ''default'',
             SearchResultWithContext.Pods = [], Services = [newServiceInfo testSvc]\<rparr>]
   \<and> SearchByNameAllContexts testWorld ''/kube/config'' ''redis'' []
     = Inr [\<lparr>PodResultWithContext.Context = ''context-1'',
             PodResultWithContext.Namespace = ''default'',
             PodResultWithContext.Pods = [newPodInfo redisPod]\<rparr>]
   \<and> SearchByIP (\<lparr>Clientset = fakeClient,
            Config = \<lparr>Contexts = [''context-1'', ''context-2'', ''context-3''],
                      CurrentContext = ''context-1''\<rparr>,
            K8sClient.Namespaces = []\<rparr>\<lparr>K8sClient.Namespaces := [''test-ns'']\<rparr>) ''10.96.0.1''
       = Inr ([], [])
   \<and> 0 < length [newServiceInfo testSvc] \<and> 0 < length [newPodInfo redisPod]"
proof -
  have i: "SearchByIPAllContexts testWorld ''/kube/config'' ''10.96.0.1'' []
     = Inr [\<lparr>SearchResultWithContext.Context = ''context-1'',
             SearchResultWithContext.Namespace = ''default'',
             SearchResultWithContext.Pods = [], Services = [newServiceInfo testSvc]\<rparr>]"
    by (simp add: SearchByIPAllContexts_def testWorld_config GetContexts_def testWorld_clients
          namespacesToSearch_def SearchByIP_def
          fakeClient_def restrictedClient_def pod1_def pod2_def redisPod_def
          serviceMatched_def testSvc_def lbSvc_def staleSvc_def ServiceTypeLoadBalancer_def
          isPermissionError_def IsPermissionError_def IsForbidden_def IsUnauthorized_def)
  have n: "SearchByNameAllContexts testWorld ''/kube/config'' ''redis'' []
     = Inr [\<lparr>PodResultWithContext.Context = ''context-1'',
             PodResultWithContext.Namespace = ''default'',
             PodResultWithContext.Pods = [newPodInfo redisPod]\<rparr>]"
    by (simp add: SearchByNameAllContexts_def testWorld_config GetContexts_def testWorld_clients
          namespacesToSearch_def SearchByName_def
          fakeClient_def restrictedClient_def pod1_def pod2_def redisPod_def
          isPermissionError_def IsPermissionError_def IsForbidden_def IsUnauthorized_def)
  have e: "SearchByIP (\<lparr>Clientset = fakeClient,
            Config = \<lparr>Contexts = [''context-1'', ''context-2'', ''context-3''],
                      CurrentContext = ''context-1''\<rparr>,
            K8sClient.Namespaces = []\<rparr>\<lparr>K8sClient.Namespaces := [''test-ns'']\<rparr>) ''10.96.0.1''
       = Inr ([], [])"
    by (simp add: SearchByIP_def fakeClient_def pod2_def)
  from empty_scopes_are_dropped [of testWorld "''/kube/config''" "''10.96.0.1''" "[]"
          "[\<lparr>SearchResultWithContext.Context = ''context-1'',
             SearchResultWithContext.Namespace = ''default'',
             SearchResultWithContext.Pods = [], Services = [newServiceInfo testSvc]\<rparr>]"
          "''redis''"
          "[\<lparr>PodResultWithContext.Context = ''context-1'',
             PodResultWithContext.Namespace = ''default'',
             PodResultWithContext.Pods = [newPodInfo redisPod]\<rparr>]"]
       i n e
  show ?thesis by simp
qed

text \<open>
  C1 (as amended). An aggregate search returns a non-nil error if and only if the
  top-level kubeconfig load fails, and the error is then the error of the load. When the
  kubeconfig loads, the result is the merged list of the included results with a nil
  error, whatever happens in the scopes; when there is no searchable scope at all, it is
  the empty list with a nil error.
\<close>

theorem aggregate_error_iff_load_fails:
  "(isl (SearchByIPAllContexts w kubeconfigPath ip namespaces) \<longleftrightarrow> isl (LoadKubeConfig w kubeconfigPath))
   \<and> (isl (SearchByNameAllContexts w kubeconfigPath name namespaces) \<longleftrightarrow> isl (LoadKubeConfig w kubeconfigPath))
   \<and> (LoadKubeConfig w kubeconfigPath = Inl err \<longrightarrow>
        SearchByIPAllContexts w kubeconfigPath ip namespaces = Inl err
      \<and> SearchByNameAllContexts w kubeconfigPath name namespaces = Inl err)
   \<and> (LoadKubeConfig w kubeconfigPath = Inr config \<longrightarrow>
        SearchByIPAllContexts w kubeconfigPath ip namespaces
          = Inr (concat (map (contextResultsIP w kubeconfigPath ip namespaces) (GetContexts config)))
      \<and> SearchByNameAllContexts w kubeconfigPath name namespaces
          = Inr (concat (map (contextResultsName w kubeconfigPath name namespaces) (GetContexts config))))
   \<and> (LoadKubeConfig w kubeconfigPath = Inr config
        \<and> searchableScopes w kubeconfigPath namespaces = [] \<longrightarrow>
        SearchByIPAllContexts w kubeconfigPath ip namespaces = Inr []
      \<and> SearchByNameAllContexts w kubeconfigPath name namespaces = Inr [])"
proof (intro conjI impI)
  show "isl (SearchByIPAllContexts w kubeconfigPath ip namespaces) \<longleftrightarrow> isl (LoadKubeConfig w kubeconfigPath)"
    by (simp add: SearchByIPAllContexts_def split: sum.splits)
  show "isl (SearchByNameAllContexts w kubeconfigPath name namespaces) \<longleftrightarrow> isl (LoadKubeConfig w kubeconfigPath)"
    by (simp add: SearchByNameAllContexts_def split: sum.splits)
next
  assume "LoadKubeConfig w kubeconfigPath = Inl err"
  then show "SearchByIPAllContexts w kubeconfigPath ip namespaces = Inl err"
    and "SearchByNameAllContexts w kubeconfigPath name namespaces = Inl err"
    by (simp_all add: SearchByIPAllContexts_def SearchByNameAllContexts_def)
next
  assume l: "LoadKubeConfig w kubeconfigPath = Inr config"
  show "SearchByIPAllContexts w kubeconfigPath ip namespaces
          = Inr (concat (map (contextResultsIP w kubeconfigPath ip namespaces) (GetContexts config)))"
    by (rule SearchByIPAllContexts_merged [OF l])
  show "SearchByNameAllContexts w kubeconfigPath name namespaces
          = Inr (concat (map (contextResultsName w kubeconfigPath name namespaces) (GetContexts config)))"
    by (rule SearchByNameAllContexts_merged [OF l])
next
  assume a: "LoadKubeConfig w kubeconfigPath = Inr config
        \<and> searchableScopes w kubeconfigPath namespaces = []"
  then have l: "LoadKubeConfig w kubeconfigPath = Inr config"
    and s: "searchableScopes w kubeconfigPath namespaces = []" by simp_all
  have n: "searchedNamespaces w kubeconfigPath namespaces contextName = []"
    if "contextName \<in> set (GetContexts config)" for contextName
    using no_scope_no_namespace [OF l s that] .
  show "SearchByIPAllContexts w kubeconfigPath ip namespaces = Inr []"
    unfolding SearchByIPAllContexts_merged [OF l]
    by (simp add: n contextResultsIP_no_namespace)
  show "SearchByNameAllContexts w kubeconfigPath name namespaces = Inr []"
    unfolding SearchByNameAllContexts_merged [OF l]
    by (simp add: n contextResultsName_no_namespace)
qed

theorem aggregate_error_iff_load_fails_witness:
  "LoadKubeConfig testWorld ''/nonexistent/path''
     = Inl (Wrapf ''failed to load kubeconfig'' (Failure ''no such file or directory''))
   \<and> SearchByIPAllContexts testWorld ''/nonexistent/path'' ''10.0.0.1'' []
     = Inl (Wrapf ''failed to load kubeconfig'' (Failure ''no such file or directory''))
   \<and> SearchByNameAllContexts testWorld ''/nonexistent/path'' ''nginx'' []
     = Inl (Wrapf ''failed to load kubeconfig'' (Failure ''no such file or directory''))
   \<and> SearchByIPAllContexts testWorld ''/kube/config'' ''10.0.0.1'' [''broken''] = Inr []
   \<and> SearchByNameAllContexts testWorld ''/kube/config'' ''nginx'' [''broken''] = Inr []
   \<and> searchableScopes testWorld ''/kube/unreachable'' [] = []
   \<and> SearchByIPAllContexts testWorld ''/kube/unreachable'' ''10.0.0.1'' [] = Inr []
   \<and> SearchByNameAllContexts testWorld ''/kube/unreachable'' ''nginx'' [] = Inr []"
proof -
  let ?cfg = "\<lparr>Contexts = [''context-1'', ''context-2'', ''context-3''], CurrentContext = ''context-1''\<rparr>"
  let ?cfgu = "\<lparr>Contexts = [''context-2''], CurrentContext = ''context-2''\<rparr>"
  let ?e = "Wrapf ''failed to load kubeconfig'' (Failure ''no such file or directory'')"
  have l: "LoadKubeConfig testWorld ''/nonexistent/path'' = Inl ?e"
    by (simp add: LoadKubeConfig_def testWorld_def)
  have s: "searchableScopes testWorld ''/kube/unreachable'' [] = []"
    by (simp add: searchableScopes_def searchedNamespaces_def testWorld_unreachable GetContexts_def)
  have h: "LoadKubeConfig testWorld ''/kube/unreachable'' = Inr ?cfgu
      \<and> searchableScopes testWorld ''/kube/unreachable'' [] = []"
    using testWorld_unreachable(1) s by simp
  note a = aggregate_error_iff_load_fails [of testWorld "''/nonexistent/path''" "''10.0.0.1''" "[]"
      "''nginx''" ?e ?cfg, THEN conjunct2, THEN conjunct2, THEN conjunct1, THEN mp, OF l]
  note b = aggregate_error_iff_load_fails [of testWorld "''/kube/config''" "''10.0.0.1''" "[''broken'']"
      "''nginx''" ?e ?cfg, THEN conjunct2, THEN conjunct2, THEN conjunct2, THEN conjunct1, THEN mp,
      OF testWorld_config]
  note c = aggregate_error_iff_load_fails [of testWorld "''/kube/unreachable''" "''10.0.0.1''" "[]"
      "''nginx''" ?e ?cfgu, THEN conjunct2, THEN conjunct2, THEN conjunct2, THEN conjunct2, THEN mp,
      OF h]
  have i: "contextResultsIP testWorld ''/kube/config'' ''10.0.0.1'' [''broken''] ''context-1'' = []"
      "contextResultsIP testWorld ''/kube/config'' ''10.0.0.1'' [''broken''] ''context-2'' = []"
      "contextResultsIP testWorld ''/kube/config'' ''10.0.0.1'' [''broken''] ''context-3'' = []"
    by (simp_all add: contextResultsIP_def scopedResultIP_def testWorld_clients SearchByIP_def
          fakeClient_def restrictedClient_def isPermissionError_def IsPermissionError_def
          IsForbidden_def IsUnauthorized_def)
  have n: "contextResultsName testWorld ''/kube/config'' ''nginx'' [''broken''] ''context-1'' = []"
      "contextResultsName testWorld ''/kube/config'' ''nginx'' [''broken''] ''context-2'' = []"
      "contextResultsName testWorld ''/kube/config'' ''nginx'' [''broken''] ''context-3'' = []"
    by (simp_all add: contextResultsName_def scopedResultName_def testWorld_clients SearchByName_def
          fakeClient_def restrictedClient_def isPermissionError_def IsPermissionError_def
          IsForbidden_def IsUnauthorized_def)
  from l a b c s i n show ?thesis by (simp add: GetContexts_def)
qed

text \<open>
  C1 as written also makes the absence of any searchable scope an error. The code has no
  such check: a kubeconfig without contexts has no scope, and both searches return the
  empty list and a nil error for it.
\<close>

theorem no_scope_is_not_an_error:
  "LoadKubeConfig testWorld ''/kube/empty'' = Inr \<lparr>Contexts = [], CurrentContext = []\<rparr>
   \<and> searchableScopes testWorld ''/kube/empty'' [] = []
   \<and> SearchByIPAllContexts testWorld ''/kube/empty'' ''10.0.0.1'' [] = Inr []
   \<and> SearchByNameAllContexts testWorld ''/kube/empty'' ''nginx'' [] = Inr []
   \<and> \<not> (isl (SearchByIPAllContexts testWorld ''/kube/empty'' ''10.0.0.1'' [])
          \<longleftrightarrow> isl (LoadKubeConfig testWorld ''/kube/empty'')
              \<or> searchableScopes testWorld ''/kube/empty'' [] = [])"
  by (simp add: LoadKubeConfig_def testWorld_def searchableScopes_def GetContexts_def
        SearchByIPAllContexts_def SearchByNameAllContexts_def)

section \<open>Namespace discovery\<close>

text \<open>
  C3 (as amended). With an empty namespace list, the command-line callers
  \<open>SearchK8sByIPAllContexts\<close> and \<open>SearchK8sByNameAllContexts\<close> probe the namespaces
  of the current context only, by a pod list call with limit 1; a namespace is accessible
  if and only if that call succeeds. If the discovery succeeds and finds at least one
  accessible namespace, the namespaces searched in the current context are exactly its
  accessible namespaces, in listing order: the entries of the result for the current
  context are the included results of these namespaces. If the discovery fails or finds
  none, every context is searched in all the namespaces its own API lists, without a
  probe: the result is the merged list of the included results of these namespaces, and a
  context whose client or namespace listing fails contributes nothing.
\<close>

theorem discovery_with_empty_namespace_list:
  "(LoadKubeConfig w kubeconfigPath = Inr config
      \<and> GetAccessibleNamespaces w kubeconfigPath [] = Inr accessible \<and> 0 < length accessible
    \<longrightarrow> discoverNamespaces w kubeconfigPath [] = accessible
      \<and> searchedNamespaces w kubeconfigPath (discoverNamespaces w kubeconfigPath [])
            (CurrentContext config) = accessible
      \<and> (\<exists>client namespaceList.
            NewK8sClient w kubeconfigPath (CurrentContext config) [] = Inr client
          \<and> Namespaces_List (Clientset client) 0 = Inr namespaceList
          \<and> accessible = filter (\<lambda>ns. \<not> isl (Pods_List (Clientset client) ns 1))
                            (map NamespaceItem.Name namespaceList)
          \<and> set accessible = AccessibleNamespaceSet (Clientset client)))
   \<and> (LoadKubeConfig w kubeconfigPath = Inr config
      \<and> GetAccessibleNamespaces w kubeconfigPath [] = Inr accessible \<and> 0 < length accessible
      \<and> ValidateIP w ip \<and> name \<noteq> []
      \<and> distinct (GetContexts config) \<and> CurrentContext config \<in> set (GetContexts config)
    \<longrightarrow> (\<exists>client ipResults nameResults.
            NewK8sClient w kubeconfigPath (CurrentContext config) [] = Inr client
          \<and> SearchK8sByIPAllContexts_results w kubeconfigPath ip [] = Inr ipResults
          \<and> filter (\<lambda>r. SearchResultWithContext.Context r = CurrentContext config) ipResults
              = concat (map (scopedResultIP client (CurrentContext config) ip) accessible)
          \<and> SearchK8sByNameAllContexts_results w kubeconfigPath name [] = Inr nameResults
          \<and> filter (\<lambda>r. PodResultWithContext.Context r = CurrentContext config) nameResults
              = concat (map (scopedResultName client (CurrentContext config) name) accessible)))
   \<and> ((GetAccessibleNamespaces w kubeconfigPath [] = Inl err
        \<or> GetAccessibleNamespaces w kubeconfigPath [] = Inr [])
    \<longrightarrow> discoverNamespaces w kubeconfigPath [] = []
      \<and> (\<forall>contextName.
            searchedNamespaces w kubeconfigPath (discoverNamespaces w kubeconfigPath []) contextName
              = (case NewK8sClient w kubeconfigPath contextName [] of
                   Inl e \<Rightarrow> []
                 | Inr client \<Rightarrow>
                     (case Namespaces_List (Clientset client) 0 of
                        Inl e \<Rightarrow> []
                      | Inr namespaceList \<Rightarrow> map NamespaceItem.Name namespaceList))))
   \<and> ((GetAccessibleNamespaces w kubeconfigPath [] = Inl err
        \<or> GetAccessibleNamespaces w kubeconfigPath [] = Inr [])
      \<and> LoadKubeConfig w kubeconfigPath = Inr config \<and> ValidateIP w ip \<and> name \<noteq> []
    \<longrightarrow> SearchK8sByIPAllContexts_results w kubeconfigPath ip [] =
          Inr (concat (map (\<lambda>contextName.
                 case NewK8sClient w kubeconfigPath contextName [] of
                   Inl e \<Rightarrow> []
                 | Inr client \<Rightarrow>
                     (case Namespaces_List (Clientset client) 0 of
                        Inl e \<Rightarrow> []
                      | Inr namespaceList \<Rightarrow>
                          concat (map (scopedResultIP client contextName ip)
                                    (map NamespaceItem.Name namespaceList))))
               (GetContexts config)))
      \<and> SearchK8sByNameAllContexts_results w kubeconfigPath name [] =
          Inr (concat (map (\<lambda>contextName.
                 case NewK8sClient w kubeconfigPath contextName [] of
                   Inl e \<Rightarrow> []
                 | Inr client \<Rightarrow>
                     (case Namespaces_List (Clientset client) 0 of
                        Inl e \<Rightarrow> []
                      | Inr namespaceList \<Rightarrow>
                          concat (map (scopedResultName client contextName name)
                                    (map NamespaceItem.Name namespaceList))))
               (GetContexts config))))"
proof -
  have A: "LoadKubeConfig w kubeconfigPath = Inr config
      \<and> GetAccessibleNamespaces w kubeconfigPath [] = Inr accessible \<and> 0 < length accessible
    \<longrightarrow> discoverNamespaces w kubeconfigPath [] = accessible
      \<and> searchedNamespaces w kubeconfigPath (discoverNamespaces w kubeconfigPath [])
            (CurrentContext config) = accessible
      \<and> (\<exists>client namespaceList.
            NewK8sClient w kubeconfigPath (CurrentContext config) [] = Inr client
          \<and> Namespaces_List (Clientset client) 0 = Inr namespaceList
          \<and> accessible = filter (\<lambda>ns. \<not> isl (Pods_List (Clientset client) ns 1))
                            (map NamespaceItem.Name namespaceList)
          \<and> set accessible = AccessibleNamespaceSet (Clientset client))"
  proof (intro impI)
    assume a: "LoadKubeConfig w kubeconfigPath = Inr config
      \<and> GetAccessibleNamespaces w kubeconfigPath [] = Inr accessible \<and> 0 < length accessible"
    then have d: "discoverNamespaces w kubeconfigPath [] = accessible"
      by (simp add: discoverNamespaces_def)
    from a obtain client namespaceList where
        k: "NewK8sClient w kubeconfigPath [] [] = Inr client"
        and n: "Namespaces_List (Clientset client) 0 = Inr namespaceList"
        and f: "accessible = filter (\<lambda>ns. \<not> isl (Pods_List (Clientset client) ns 1))
                              (map NamespaceItem.Name namespaceList)"
      by (auto simp: GetAccessibleNamespaces_def GetAccessibleNamespaces_probe_eq split: sum.splits)
    from a k have k': "NewK8sClient w kubeconfigPath (CurrentContext config) [] = Inr client"
      by (simp add: NewK8sClient_current_context)
    from a k' have s: "searchedNamespaces w kubeconfigPath (discoverNamespaces w kubeconfigPath [])
              (CurrentContext config) = accessible"
      by (simp add: d searchedNamespaces_def namespacesToSearch_def)
    from n f have "set accessible = AccessibleNamespaceSet (Clientset client)"
      by (simp add: AccessibleNamespaceSet_def)
    with k' n f have "\<exists>client namespaceList.
            NewK8sClient w kubeconfigPath (CurrentContext config) [] = Inr client
          \<and> Namespaces_List (Clientset client) 0 = Inr namespaceList
          \<and> accessible = filter (\<lambda>ns. \<not> isl (Pods_List (Clientset client) ns 1))
                            (map NamespaceItem.Name namespaceList)
          \<and> set accessible = AccessibleNamespaceSet (Clientset client)"
      by blast
    with d s show "discoverNamespaces w kubeconfigPath [] = accessible
      \<and> searchedNamespaces w kubeconfigPath (discoverNamespaces w kubeconfigPath [])
            (CurrentContext config) = accessible
      \<and> (\<exists>client namespaceList.
            NewK8sClient w kubeconfigPath (CurrentContext config) [] = Inr client
          \<and> Namespaces_List (Clientset client) 0 = Inr namespaceList
          \<and> accessible = filter (\<lambda>ns. \<not> isl (Pods_List (Clientset client) ns 1))
                            (map NamespaceItem.Name namespaceList)
          \<and> set accessible = AccessibleNamespaceSet (Clientset client))"
      by blast
  qed
  have B: "LoadKubeConfig w kubeconfigPath = Inr config
      \<and> GetAccessibleNamespaces w kubeconfigPath [] = Inr accessible \<and> 0 < length accessible
      \<and> ValidateIP w ip \<and> name \<noteq> []
      \<and> distinct (GetContexts config) \<and> CurrentContext config \<in> set (GetContexts config)
    \<longrightarrow> (\<exists>client ipResults nameResults.
            NewK8sClient w kubeconfigPath (CurrentContext config) [] = Inr client
          \<and> SearchK8sByIPAllContexts_results w kubeconfigPath ip [] = Inr ipResults
          \<and> filter (\<lambda>r. SearchResultWithContext.Context r = CurrentContext config) ipResults
              = concat (map (scopedResultIP client (CurrentContext config) ip) accessible)
          \<and> SearchK8sByNameAllContexts_results w kubeconfigPath name [] = Inr nameResults
          \<and> filter (\<lambda>r. PodResultWithContext.Context r = CurrentContext config) nameResults
              = concat (map (scopedResultName client (CurrentContext config) name) accessible))"
  proof (intro impI)
    assume a: "LoadKubeConfig w kubeconfigPath = Inr config
      \<and> GetAccessibleNamespaces w kubeconfigPath [] = Inr accessible \<and> 0 < length accessible
      \<and> ValidateIP w ip \<and> name \<noteq> []
      \<and> distinct (GetContexts config) \<and> CurrentContext config \<in> set (GetContexts config)"
    then have l: "LoadKubeConfig w kubeconfigPath = Inr config"
      and ne: "accessible \<noteq> []"
      and dist: "distinct (GetContexts config)"
      and mem: "CurrentContext config \<in> set (GetContexts config)"
      by simp_all
    from a have d: "discoverNamespaces w kubeconfigPath [] = accessible"
      by (simp add: discoverNamespaces_def)
    from a obtain client where k: "NewK8sClient w kubeconfigPath [] [] = Inr client"
      by (auto simp: GetAccessibleNamespaces_def split: sum.splits)
    from l k have k': "NewK8sClient w kubeconfigPath (CurrentContext config) [] = Inr client"
      by (simp add: NewK8sClient_current_context)
    let ?ip = "concat (map (contextResultsIP w kubeconfigPath ip accessible) (GetContexts config))"
    let ?nm = "concat (map (contextResultsName w kubeconfigPath name accessible) (GetContexts config))"
    from a have ri: "SearchK8sByIPAllContexts_results w kubeconfigPath ip [] = Inr ?ip"
      by (simp add: SearchK8sByIPAllContexts_results_def d SearchByIPAllContexts_merged [OF l])
    from a have rn: "SearchK8sByNameAllContexts_results w kubeconfigPath name [] = Inr ?nm"
      by (simp add: SearchK8sByNameAllContexts_results_def d SearchByNameAllContexts_merged [OF l])
    have fi: "filter (\<lambda>r. SearchResultWithContext.Context r = CurrentContext config) ?ip
        = contextResultsIP w kubeconfigPath ip accessible (CurrentContext config)"
      by (rule filter_concat_map_key [OF dist mem]) (rule contextResultsIP_Context)
    have fn: "filter (\<lambda>r. PodResultWithContext.Context r = CurrentContext config) ?nm
        = contextResultsName w kubeconfigPath name accessible (CurrentContext config)"
      by (rule filter_concat_map_key [OF dist mem]) (rule contextResultsName_Context)
    from k' ne have ci: "contextResultsIP w kubeconfigPath ip accessible (CurrentContext config)
        = concat (map (scopedResultIP client (CurrentContext config) ip) accessible)"
      by (simp add: contextResultsIP_def)
    from k' ne have cn: "contextResultsName w kubeconfigPath name accessible (CurrentContext config)
        = concat (map (scopedResultName client (CurrentContext config) name) accessible)"
      by (simp add: contextResultsName_def)
    from k' ri rn fi fn ci cn show "\<exists>client ipResults nameResults.
            NewK8sClient w kubeconfigPath (CurrentContext config) [] = Inr client
          \<and> SearchK8sByIPAllContexts_results w kubeconfigPath ip [] = Inr ipResults
          \<and> filter (\<lambda>r. SearchResultWithContext.Context r = CurrentContext config) ipResults
              = concat (map (scopedResultIP client (CurrentContext config) ip) accessible)
          \<and> SearchK8sByNameAllContexts_results w kubeconfigPath name [] = Inr nameResults
          \<and> filter (\<lambda>r. PodResultWithContext.Context r = CurrentContext config) nameResults
              = concat (map (scopedResultName client (CurrentContext config) name) accessible)"
      by (metis (no_types, lifting))
  qed
  have C: "(GetAccessibleNamespaces w kubeconfigPath [] = Inl err
        \<or> GetAccessibleNamespaces w kubeconfigPath [] = Inr [])
    \<longrightarrow> discoverNamespaces w kubeconfigPath [] = []
      \<and> (\<forall>contextName.
            searchedNamespaces w kubeconfigPath (discoverNamespaces w kubeconfigPath []) contextName
              = (case NewK8sClient w kubeconfigPath contextName [] of
                   Inl e \<Rightarrow> []
                 | Inr client \<Rightarrow>
                     (case Namespaces_List (Clientset client) 0 of
                        Inl e \<Rightarrow> []
                      | Inr namespaceList \<Rightarrow> map NamespaceItem.Name namespaceList)))"
  proof (intro impI)
    assume a: "GetAccessibleNamespaces w kubeconfigPath [] = Inl err
        \<or> GetAccessibleNamespaces w kubeconfigPath [] = Inr []"
    then have d: "discoverNamespaces w kubeconfigPath [] = []"
      by (auto simp: discoverNamespaces_def)
    then show "discoverNamespaces w kubeconfigPath [] = []
      \<and> (\<forall>contextName.
            searchedNamespaces w kubeconfigPath (discoverNamespaces w kubeconfigPath []) contextName
              = (case NewK8sClient w kubeconfigPath contextName [] of
                   Inl e \<Rightarrow> []
                 | Inr client \<Rightarrow>
                     (case Namespaces_List (Clientset client) 0 of
                        Inl e \<Rightarrow> []
                      | Inr namespaceList \<Rightarrow> map NamespaceItem.Name namespaceList)))"
      by (simp add: searchedNamespaces_def namespacesToSearch_eq split: sum.splits)
  qed
  have D: "(GetAccessibleNamespaces w kubeconfigPath [] = Inl err
        \<or> GetAccessibleNamespaces w kubeconfigPath [] = Inr [])
      \<and> LoadKubeConfig w kubeconfigPath = Inr config \<and> ValidateIP w ip \<and> name \<noteq> []
    \<longrightarrow> SearchK8sByIPAllContexts_results w kubeconfigPath ip [] =
          Inr (concat (map (\<lambda>contextName.
                 case NewK8sClient w kubeconfigPath contextName [] of
                   Inl e \<Rightarrow> []
                 | Inr client \<Rightarrow>
                     (case Namespaces_List (Clientset client) 0 of
                        Inl e \<Rightarrow> []
                      | Inr namespaceList \<Rightarrow>
                          concat (map (scopedResultIP client contextName ip)
                                    (map NamespaceItem.Name namespaceList))))
               (GetContexts config)))
      \<and> SearchK8sByNameAllContexts_results w kubeconfigPath name [] =
          Inr (concat (map (\<lambda>contextName.
                 case NewK8sClient w kubeconfigPath contextName [] of
                   Inl e \<Rightarrow> []
                 | Inr client \<Rightarrow>
                     (case Namespaces_List (Clientset client) 0 of
                        Inl e \<Rightarrow> []
                      | Inr namespaceList \<Rightarrow>
                          concat (map (scopedResultName client contextName name)
                                    (map NamespaceItem.Name namespaceList))))
               (GetContexts config)))"
  proof (intro impI)
    assume a: "(GetAccessibleNamespaces w kubeconfigPath [] = Inl err
        \<or> GetAccessibleNamespaces w kubeconfigPath [] = Inr [])
      \<and> LoadKubeConfig w kubeconfigPath = Inr config \<and> ValidateIP w ip \<and> name \<noteq> []"
    then have l: "LoadKubeConfig w kubeconfigPath = Inr config" by simp
    from a have d: "discoverNamespaces w kubeconfigPath [] = []"
      by (auto simp: discoverNamespaces_def)
    have ci: "contextResultsIP w kubeconfigPath ip [] = (\<lambda>contextName.
                 case NewK8sClient w kubeconfigPath contextName [] of
                   Inl e \<Rightarrow> []
                 | Inr client \<Rightarrow>
                     (case Namespaces_List (Clientset client) 0 of
                        Inl e \<Rightarrow> []
                      | Inr namespaceList \<Rightarrow>
                          concat (map (scopedResultIP client contextName ip)
                                    (map NamespaceItem.Name namespaceList))))"
      by (rule ext) (simp add: contextResultsIP_def split: sum.splits)
    have cn: "contextResultsName w kubeconfigPath name [] = (\<lambda>contextName.
                 case NewK8sClient w kubeconfigPath contextName [] of
                   Inl e \<Rightarrow> []
                 | Inr client \<Rightarrow>
                     (case Namespaces_List (Clientset client) 0 of
                        Inl e \<Rightarrow> []
                      | Inr namespaceList \<Rightarrow>
                          concat (map (scopedResultName client contextName name)
                                    (map NamespaceItem.Name namespaceList))))"
      by (rule ext) (simp add: contextResultsName_def split: sum.splits)
    from a have ri: "SearchK8sByIPAllContexts_results w kubeconfigPath ip [] =
        Inr (concat (map (contextResultsIP w kubeconfigPath ip []) (GetContexts config)))"
      by (simp add: SearchK8sByIPAllContexts_results_def d SearchByIPAllContexts_merged [OF l])
    from a have rn: "SearchK8sByNameAllContexts_results w kubeconfigPath name [] =
        Inr (concat (map (contextResultsName w kubeconfigPath name []) (GetContexts config)))"
      by (simp add: SearchK8sByNameAllContexts_results_def d SearchByNameAllContexts_merged [OF l])
    from ri rn show "SearchK8sByIPAllContexts_results w kubeconfigPath ip [] =
          Inr (concat (map (\<lambda>contextName.
                 case NewK8sClient w kubeconfigPath contextName [] of
                   Inl e \<Rightarrow> []
                 | Inr client \<Rightarrow>
                     (case Namespaces_List (Clientset client) 0 of
                        Inl e \<Rightarrow> []
                      | Inr namespaceList \<Rightarrow>
                          concat (map (scopedResultIP client contextName ip)
                                    (map NamespaceItem.Name namespaceList))))
               (GetContexts config)))
      \<and> SearchK8sByNameAllContexts_results w kubeconfigPath name [] =
          Inr (concat (map (\<lambda>contextName.
                 case NewK8sClient w kubeconfigPath contextName [] of
                   Inl e \<Rightarrow> []
                 | Inr client \<Rightarrow>
                     (case Namespaces_List (Clientset client) 0 of
                        Inl e \<Rightarrow> []
                      | Inr namespaceList \<Rightarrow>
                          concat (map (scopedResultName client contextName name)
                                    (map NamespaceItem.Name namespaceList))))
               (GetContexts config)))"
      unfolding ci cn by (rule conjI)
  qed
  show ?thesis by (intro conjI A B C D)
qed

theorem discovery_with_empty_namespace_list_witness:
  "GetAccessibleNamespaces testWorld ''/kube/restricted'' [] = Inr [''default'', ''svc-denied'']
   \<and> Namespaces_List restrictedClient 0
       = Inr [\<lparr>NamespaceItem.Name = ''default''\<rparr>, \<lparr>NamespaceItem.Name = ''kube-system''\<rparr>,
              \<lparr>NamespaceItem.Name = ''svc-denied''\<rparr>]
   \<and> AccessibleNamespaceSet restrictedClient = {''default'', ''svc-denied''}
   \<and> discoverNamespaces testWorld ''/kube/restricted'' [] = [''default'', ''svc-denied'']
   \<and> searchedNamespaces testWorld ''/kube/restricted''
        (discoverNamespaces testWorld ''/kube/restricted'' []) ''context-3'' = [''default'', ''svc-denied'']
   \<and> SearchK8sByIPAllContexts_results testWorld ''/kube/restricted'' ''10.0.0.1'' []
       = Inr [\<lparr>SearchResultWithContext.Context = ''context-3'',
               SearchResultWithContext.Namespace = ''default'',
               SearchResultWithContext.Pods = [newPodInfo pod1], Services = []\<rparr>,
              \<lparr>SearchResultWithContext.Context = ''context-3'',
               SearchResultWithContext.Namespace = ''svc-denied'',
               SearchResultWithContext.Pods = [newPodInfo pod1], Services = []\<rparr>,
              \<lparr>SearchResultWithContext.Context = ''context-1'',
               SearchResultWithContext.Namespace = ''default'',
               SearchResultWithContext.Pods = [newPodInfo pod1], Services = []\<rparr>]
   \<and> filter (\<lambda>r. SearchResultWithContext.Context r = ''context-3'')
         [\<lparr>SearchResultWithContext.Context = ''context-3'',
               SearchResultWithContext.Namespace = ''default'',
               SearchResultWithContext.Pods = [newPodInfo pod1], Services = []\<rparr>,
              \<lparr>SearchResultWithContext.Context = ''context-3'',
               SearchResultWithContext.Namespace = ''svc-denied'',
               SearchResultWithContext.Pods = [newPodInfo pod1], Services = []\<rparr>,
              \<lparr>SearchResultWithContext.Context = ''context-1'',
               SearchResultWithContext.Namespace = ''default'',
               SearchResultWithContext.Pods = [newPodInfo pod1], Services = []\<rparr>]
       = concat (map (scopedResultIP
                   \<lparr>Clientset = restrictedClient,
                     Config = \<lparr>Contexts = [''context-3'', ''context-1''], CurrentContext = ''context-3''\<rparr>,
                     K8sClient.Namespaces = []\<rparr>
                   ''context-3'' ''10.0.0.1'') [''default'', ''svc-denied''])
   \<and> SearchK8sByNameAllContexts_results testWorld ''/kube/restricted'' ''pod-'' []
       = Inr [\<lparr>PodResultWithContext.Context = ''context-3'',
               PodResultWithContext.Namespace = ''default'',
               PodResultWithContext.Pods = [newPodInfo pod1]\<rparr>,
              \<lparr>PodResultWithContext.Context = ''context-3'',
               PodResultWithContext.Namespace = ''svc-denied'',
               PodResultWithContext.Pods = [newPodInfo pod1]\<rparr>,
              \<lparr>PodResultWithContext.Context = ''context-1'',
               PodResultWithContext.Namespace = ''default'',
               PodResultWithContext.Pods = [newPodInfo pod1]\<rparr>]
   \<and> GetAccessibleNamespaces testWorld ''/kube/nolist'' [] = Inl (StatusError Forbidden 403)
   \<and> SearchK8sByIPAllContexts_results testWorld ''/kube/nolist'' ''10.0.0.1'' []
       = Inr [\<lparr>SearchResultWithContext.Context = ''context-1'',
               SearchResultWithContext.Namespace = ''default'',
               SearchResultWithContext.Pods = [newPodInfo pod1], Services = []\<rparr>]
   \<and> SearchK8sByNameAllContexts_results testWorld ''/kube/nolist'' ''pod-'' []
       = Inr [\<lparr>PodResultWithContext.Context = ''context-1'',
               PodResultWithContext.Namespace = ''default'',
               PodResultWithContext.Pods = [newPodInfo pod1]\<rparr>,
              \<lparr>PodResultWithContext.Context = ''context-1'',
               PodResultWithContext.Namespace = ''test-ns'',
               PodResultWithContext.Pods = [newPodInfo pod2]\<rparr>]
   \<and> GetAccessibleNamespaces testWorld ''/kube/locked'' [] = Inr []
   \<and> discoverNamespaces testWorld ''/kube/locked'' [] = []
   \<and> searchedNamespaces testWorld ''/kube/locked'' (discoverNamespaces testWorld ''/kube/locked'' [])
        ''context-l'' = [''kube-system'']"
proof -
  let ?cfg = "\<lparr>Contexts = [''context-3'', ''context-1''], CurrentContext = ''context-3''\<rparr>"
  let ?cfgn = "\<lparr>Contexts = [''context-n'', ''context-1''], CurrentContext = ''context-n''\<rparr>"
  let ?client = "\<lparr>Clientset = restrictedClient, Config = ?cfg, K8sClient.Namespaces = []\<rparr>"
  let ?acc = "[''default'', ''svc-denied'']"
  have nl: "Namespaces_List restrictedClient 0
       = Inr [\<lparr>NamespaceItem.Name = ''default''\<rparr>, \<lparr>NamespaceItem.Name = ''kube-system''\<rparr>,
              \<lparr>NamespaceItem.Name = ''svc-denied''\<rparr>]"
    by (simp add: restrictedClient_def)
  have s: "AccessibleNamespaceSet restrictedClient = {''default'', ''svc-denied''}"
    by (simp add: AccessibleNamespaceSet_def restrictedClient_def)
  have v: "ValidateIP testWorld ''10.0.0.1''" by (rule testWorld_ValidateIP)
  have h1: "LoadKubeConfig testWorld ''/kube/restricted'' = Inr ?cfg
      \<and> GetAccessibleNamespaces testWorld ''/kube/restricted'' [] = Inr ?acc
      \<and> 0 < length ?acc"
    using testWorld_restricted_config testWorld_restricted_accessible by simp
  have h2: "LoadKubeConfig testWorld ''/kube/restricted'' = Inr ?cfg
      \<and> GetAccessibleNamespaces testWorld ''/kube/restricted'' [] = Inr ?acc
      \<and> 0 < length ?acc \<and> ValidateIP testWorld ''10.0.0.1'' \<and> ''pod-'' \<noteq> []
      \<and> distinct (GetContexts ?cfg) \<and> CurrentContext ?cfg \<in> set (GetContexts ?cfg)"
    using h1 v by (simp add: GetContexts_def)
  have h3: "GetAccessibleNamespaces testWorld ''/kube/locked'' [] = Inl (StatusError Forbidden 403)
      \<or> GetAccessibleNamespaces testWorld ''/kube/locked'' [] = Inr []"
    using testWorld_accessible(2) by simp
  have h4: "(GetAccessibleNamespaces testWorld ''/kube/nolist'' [] = Inl (StatusError Forbidden 403)
        \<or> GetAccessibleNamespaces testWorld ''/kube/nolist'' [] = Inr [])
      \<and> LoadKubeConfig testWorld ''/kube/nolist'' = Inr ?cfgn
      \<and> ValidateIP testWorld ''10.0.0.1'' \<and> ''pod-'' \<noteq> []"
    using testWorld_nolist_accessible testWorld_nolist_config v by simp
  note t = discovery_with_empty_namespace_list [of testWorld "''/kube/restricted''" ?cfg ?acc
      "''10.0.0.1''" "''pod-''" "StatusError Forbidden 403"]
  note tl = discovery_with_empty_namespace_list [of testWorld "''/kube/locked''" ?cfg ?acc
      "''10.0.0.1''" "''pod-''" "StatusError Forbidden 403"]
  note tn = discovery_with_empty_namespace_list [of testWorld "''/kube/nolist''" ?cfgn ?acc
      "''10.0.0.1''" "''pod-''" "StatusError Forbidden 403"]
  note t1 = t [THEN conjunct1, THEN mp, OF h1]
  note t2 = t [THEN conjunct2, THEN conjunct1, THEN mp, OF h2]
  note t3 = tl [THEN conjunct2, THEN conjunct2, THEN conjunct1, THEN mp, OF h3]
  note t4 = tn [THEN conjunct2, THEN conjunct2, THEN conjunct2, THEN mp, OF h4]
  have d1: "discoverNamespaces testWorld ''/kube/restricted'' [] = ?acc"
    using t1 by (rule conjunct1)
  have s1: "searchedNamespaces testWorld ''/kube/restricted''
      (discoverNamespaces testWorld ''/kube/restricted'' []) ''context-3'' = ?acc"
    using t1 [THEN conjunct2, THEN conjunct1] by simp
  from t2 obtain client ipResults nameResults where
      k: "NewK8sClient testWorld ''/kube/restricted'' (CurrentContext ?cfg) [] = Inr client"
      and ri: "SearchK8sByIPAllContexts_results testWorld ''/kube/restricted'' ''10.0.0.1'' [] = Inr ipResults"
      and fi: "filter (\<lambda>r. SearchResultWithContext.Context r = CurrentContext ?cfg) ipResults
              = concat (map (scopedResultIP client (CurrentContext ?cfg) ''10.0.0.1'') ?acc)"
      and rn: "SearchK8sByNameAllContexts_results testWorld ''/kube/restricted'' ''pod-'' [] = Inr nameResults"
      and fn: "filter (\<lambda>r. PodResultWithContext.Context r = CurrentContext ?cfg) nameResults
              = concat (map (scopedResultName client (CurrentContext ?cfg) ''pod-'') ?acc)"
    by blast
  have ei: "SearchK8sByIPAllContexts_results testWorld ''/kube/restricted'' ''10.0.0.1'' []
       = Inr [\<lparr>SearchResultWithContext.Context = ''context-3'',
               SearchResultWithContext.Namespace = ''default'',
               SearchResultWithContext.Pods = [newPodInfo pod1], Services = []\<rparr>,
              \<lparr>SearchResultWithContext.Context = ''context-3'',
               SearchResultWithContext.Namespace = ''svc-denied'',
               SearchResultWithContext.Pods = [newPodInfo pod1], Services = []\<rparr>,
              \<lparr>SearchResultWithContext.Context = ''context-1'',
               SearchResultWithContext.Namespace = ''default'',
               SearchResultWithContext.Pods = [newPodInfo pod1], Services = []\<rparr>]"
    by (simp add: SearchK8sByIPAllContexts_results_def v d1 SearchByIPAllContexts_def
          testWorld_restricted_config GetContexts_def testWorld_restricted_clients
          namespacesToSearch_def SearchByIP_def fakeClient_def restrictedClient_def
          pod1_def pod2_def redisPod_def serviceMatched_def testSvc_def lbSvc_def staleSvc_def
          ServiceTypeLoadBalancer_def isPermissionError_def IsPermissionError_def
          IsForbidden_def IsUnauthorized_def)
  have en: "SearchK8sByNameAllContexts_results testWorld ''/kube/restricted'' ''pod-'' []
       = Inr [\<lparr>PodResultWithContext.Context = ''context-3'',
               PodResultWithContext.Namespace = ''default'',
               PodResultWithContext.Pods = [newPodInfo pod1]\<rparr>,
              \<lparr>PodResultWithContext.Context = ''context-3'',
               PodResultWithContext.Namespace = ''svc-denied'',
               PodResultWithContext.Pods = [newPodInfo pod1]\<rparr>,
              \<lparr>PodResultWithContext.Context = ''context-1'',
               PodResultWithContext.Namespace = ''default'',
               PodResultWithContext.Pods = [newPodInfo pod1]\<rparr>]"
    by (simp add: SearchK8sByNameAllContexts_results_def d1 SearchByNameAllContexts_def
          testWorld_restricted_config GetContexts_def testWorld_restricted_clients
          namespacesToSearch_def SearchByName_def fakeClient_def restrictedClient_def
          pod1_def pod2_def redisPod_def isPermissionError_def IsPermissionError_def
          IsForbidden_def IsUnauthorized_def)
  from ri ei have ipr: "ipResults = [\<lparr>SearchResultWithContext.Context = ''context-3'',
               SearchResultWithContext.Namespace = ''default'',
               SearchResultWithContext.Pods = [newPodInfo pod1], Services = []\<rparr>,
              \<lparr>SearchResultWithContext.Context = ''context-3'',
               SearchResultWithContext.Namespace = ''svc-denied'',
               SearchResultWithContext.Pods = [newPodInfo pod1], Services = []\<rparr>,
              \<lparr>SearchResultWithContext.Context = ''context-1'',
               SearchResultWithContext.Namespace = ''default'',
               SearchResultWithContext.Pods = [newPodInfo pod1], Services = []\<rparr>]"
    by simp
  from k have kc: "client = ?client"
    by (simp add: testWorld_restricted_clients)
  have fz: "filter (\<lambda>r. SearchResultWithContext.Context r = ''context-3'')
         [\<lparr>SearchResultWithContext.Context = ''context-3'',
               SearchResultWithContext.Namespace = ''default'',
               SearchResultWithContext.Pods = [newPodInfo pod1], Services = []\<rparr>,
              \<lparr>SearchResultWithContext.Context = ''context-3'',
               SearchResultWithContext.Namespace = ''svc-denied'',
               SearchResultWithContext.Pods = [newPodInfo pod1], Services = []\<rparr>,
              \<lparr>SearchResultWithContext.Context = ''context-1'',
               SearchResultWithContext.Namespace = ''default'',
               SearchResultWithContext.Pods = [newPodInfo pod1], Services = []\<rparr>]
       = concat (map (scopedResultIP ?client ''context-3'' ''10.0.0.1'') ?acc)"
    using fi ipr kc by simp
  have d2: "discoverNamespaces testWorld ''/kube/locked'' [] = []"
    using t3 by (rule conjunct1)
  have s2: "searchedNamespaces testWorld ''/kube/locked''
      (discoverNamespaces testWorld ''/kube/locked'' []) ''context-l'' = [''kube-system'']"
    using t3 [THEN conjunct2, THEN spec, of "''context-l''"]
    by (simp add: testWorld_locked_client lockedClient_def)
  have ni: "SearchK8sByIPAllContexts_results testWorld ''/kube/nolist'' ''10.0.0.1'' []
       = Inr [\<lparr>SearchResultWithContext.Context = ''context-1'',
               SearchResultWithContext.Namespace = ''default'',
               SearchResultWithContext.Pods = [newPodInfo pod1], Services = []\<rparr>]"
    using t4 [THEN conjunct1]
    by (simp add: GetContexts_def testWorld_nolist_clients scopedResultIP_def SearchByIP_def
          noListClient_def fakeClient_def pod1_def pod2_def redisPod_def serviceMatched_def
          testSvc_def lbSvc_def staleSvc_def ServiceTypeLoadBalancer_def)
  have nn: "SearchK8sByNameAllContexts_results testWorld ''/kube/nolist'' ''pod-'' []
       = Inr [\<lparr>PodResultWithContext.Context = ''context-1'',
               PodResultWithContext.Namespace = ''default'',
               PodResultWithContext.Pods = [newPodInfo pod1]\<rparr>,
              \<lparr>PodResultWithContext.Context = ''context-1'',
               PodResultWithContext.Namespace = ''test-ns'',
               PodResultWithContext.Pods = [newPodInfo pod2]\<rparr>]"
    using t4 [THEN conjunct2]
    by (simp add: GetContexts_def testWorld_nolist_clients scopedResultName_def SearchByName_def
          noListClient_def fakeClient_def pod1_def pod2_def redisPod_def)
  from testWorld_restricted_accessible nl s d1 s1 ei fz en testWorld_nolist_accessible ni nn
       testWorld_accessible(2) d2 s2
  show ?thesis by (simp only: simp_thms)
qed

text \<open>
  C3 as written fails in both cases: in \<open>context-3\<close> the namespaces searched are those
  found accessible in the current context, \<open>context-1\<close>, not its own accessible ones;
  so the pod with the address searched for in its accessible namespace \<open>svc-denied\<close>
  is not found. And in the locked cluster, where no probe succeeds, the namespace
  \<open>kube-system\<close> is searched all the same.
\<close>

theorem other_context_searched_in_current_contexts_namespaces:
  "LoadKubeConfig testWorld ''/kube/config''
     = Inr \<lparr>Contexts = [''context-1'', ''context-2'', ''context-3''], CurrentContext = ''context-1''\<rparr>
   \<and> NewK8sClient testWorld ''/kube/config'' ''context-3'' []
     = Inr \<lparr>Clientset = restrictedClient,
            Config = \<lparr>Contexts = [''context-1'', ''context-2'', ''context-3''],
                      CurrentContext = ''context-1''\<rparr>,
            K8sClient.Namespaces = []\<rparr>
   \<and> AccessibleNamespaceSet restrictedClient = {''default'', ''svc-denied''}
   \<and> searchedNamespaces testWorld ''/kube/config'' (discoverNamespaces testWorld ''/kube/config'' [])
        ''context-3'' = [''default'', ''test-ns'']
   \<and> set (searchedNamespaces testWorld ''/kube/config''
            (discoverNamespaces testWorld ''/kube/config'' []) ''context-3'')
       \<noteq> AccessibleNamespaceSet restrictedClient
   \<and> SearchByIP (clientFor restrictedClient [''svc-denied'']) ''10.0.0.1'' = Inr ([newPodInfo pod1], [])
   \<and> SearchByIPAllContexts testWorld ''/kube/config'' ''10.0.0.1''
        (discoverNamespaces testWorld ''/kube/config'' [])
     = Inr [\<lparr>SearchResultWithContext.Context = ''context-1'',
             SearchResultWithContext.Namespace = ''default'',
             SearchResultWithContext.Pods = [newPodInfo pod1], Services = []\<rparr>,
            \<lparr>SearchResultWithContext.Context = ''context-3'',
             SearchResultWithContext.Namespace = ''default'',
             SearchResultWithContext.Pods = [newPodInfo pod1], Services = []\<rparr>]
   \<and> AccessibleNamespaceSet lockedClient = {}
   \<and> searchedNamespaces testWorld ''/kube/locked'' (discoverNamespaces testWorld ''/kube/locked'' [])
        ''context-l'' = [''kube-system'']"
proof -
  have d: "discoverNamespaces testWorld ''/kube/config'' [] = [''default'', ''test-ns'']"
    and d': "discoverNamespaces testWorld ''/kube/locked'' [] = []"
    by (simp_all add: discoverNamespaces_def testWorld_accessible)
  have a: "AccessibleNamespaceSet restrictedClient = {''default'', ''svc-denied''}"
    by (simp add: AccessibleNamespaceSet_def restrictedClient_def)
  have l: "AccessibleNamespaceSet lockedClient = {}"
    by (simp add: AccessibleNamespaceSet_def lockedClient_def)
  have s: "searchedNamespaces testWorld ''/kube/config'' [''default'', ''test-ns''] ''context-3''
        = [''default'', ''test-ns'']"
    by (simp add: searchedNamespaces_def testWorld_clients namespacesToSearch_def)
  have s': "searchedNamespaces testWorld ''/kube/locked'' [] ''context-l'' = [''kube-system'']"
    by (simp add: searchedNamespaces_def testWorld_locked_client namespacesToSearch_def
          lockedClient_def)
  have "''test-ns'' \<in> set [''default'', ''test-ns'']"
    and "''test-ns'' \<notin> {''default'', ''svc-denied''}"
    by simp_all
  then have n: "set [''default'', ''test-ns''] \<noteq> {''default'', ''svc-denied''}"
    by metis
  have p: "SearchByIP (clientFor restrictedClient [''svc-denied'']) ''10.0.0.1''
             = Inr ([newPodInfo pod1], [])"
    by (simp add: SearchByIP_def clientFor_def restrictedClient_def pod1_def
          isPermissionError_def IsPermissionError_def IsForbidden_def IsUnauthorized_def)
  have r: "SearchByIPAllContexts testWorld ''/kube/config'' ''10.0.0.1'' [''default'', ''test-ns'']
     = Inr [\<lparr>SearchResultWithContext.Context = ''context-1'',
             SearchResultWithContext.Namespace = ''default'',
             SearchResultWithContext.Pods = [newPodInfo pod1], Services = []\<rparr>,
            \<lparr>SearchResultWithContext.Context = ''context-3'',
             SearchResultWithContext.Namespace = ''default'',
             SearchResultWithContext.Pods = [newPodInfo pod1], Services = []\<rparr>]"
    by (simp add: SearchByIPAllContexts_def testWorld_config GetContexts_def testWorld_clients
          namespacesToSearch_def SearchByIP_def
          fakeClient_def restrictedClient_def pod1_def pod2_def redisPod_def
          serviceMatched_def testSvc_def lbSvc_def staleSvc_def ServiceTypeLoadBalancer_def
          isPermissionError_def IsPermissionError_def IsForbidden_def IsUnauthorized_def)
  from d d' a l s s' n p r testWorld_config testWorld_clients(4) show ?thesis
    by (simp only: simp_thms)
qed

end
